theory Spec2Isabelle
  imports Complex_Main "HOL-Library.AList"
begin

section \<open>Text utilities\<close>

text \<open>
  JavaScript numbers are modelled as real numbers (no rounding, no NaN, no infinities) and
  JavaScript strings as lists of code units below 256 (ISO 8859-1).  The regular
  expression classes \<^verbatim>\<open>\w\<close> and \<^verbatim>\<open>\s\<close> are those of a JavaScript regular expression
  without the unicode flag.
\<close>

definition is_word :: "char \<Rightarrow> bool" where
  "is_word c = (let n = (of_char c :: nat) in
     (48 \<le> n \<and> n \<le> 57) \<or> (65 \<le> n \<and> n \<le> 90) \<or> n = 95 \<or> (97 \<le> n \<and> n \<le> 122))"

definition is_space :: "char \<Rightarrow> bool" where
  "is_space c = (let n = (of_char c :: nat) in (9 \<le> n \<and> n \<le> 13) \<or> n = 32 \<or> n = 160)"

definition toLowerCase_char :: "char \<Rightarrow> char" where
  "toLowerCase_char c = (let n = (of_char c :: nat) in
     if (65 \<le> n \<and> n \<le> 90) \<or> (192 \<le> n \<and> n \<le> 222 \<and> n \<noteq> 215)
     then char_of (n + 32) else c)"

definition toLowerCase :: "string \<Rightarrow> string" where
  "toLowerCase s = map toLowerCase_char s"

text \<open>\<^verbatim>\<open>s.split(/\s+/)\<close>: the pieces between the maximal runs of white space, empty pieces
  at either end included.\<close>

function split_ws :: "string \<Rightarrow> string list" where
  "split_ws s =
     (let w = takeWhile (\<lambda>c. \<not> is_space c) s;
          r = dropWhile (\<lambda>c. \<not> is_space c) s
      in if r = [] then [w] else w # split_ws (dropWhile is_space r))"
  by pat_completeness auto
termination
proof (relation "measure length")
  show "wf (measure length)" by simp
next
  fix s w r :: string
  assume r: "r = dropWhile (\<lambda>c. \<not> is_space c) s" and ne: "r \<noteq> []"
  from ne obtain c cs where rc: "r = c # cs" by (cases r) auto
  from r rc have "is_space c" by (metis (mono_tags, lifting) dropWhile_eq_Cons_conv)
  then have "dropWhile is_space r = dropWhile is_space cs" using rc by simp
  then have "length (dropWhile is_space r) \<le> length cs"
    by (simp add: length_dropWhile_le)
  also have "\<dots> < length r" using rc by simp
  also have "\<dots> \<le> length s" using r by (simp add: length_dropWhile_le)
  finally show "(dropWhile is_space r, s) \<in> measure length" by simp
qed

declare split_ws.simps [simp del]

definition extractKeywords :: "string \<Rightarrow> string list" where
  "extractKeywords text =
     take 20 (filter (\<lambda>word. length word > 3)
       (split_ws (filter (\<lambda>c. is_word c \<or> is_space c) (toLowerCase text))))"

definition calculateKeywordAlignment :: "string list \<Rightarrow> string list \<Rightarrow> real" where
  "calculateKeywordAlignment outputKeywords goalKeywords =
     (if length goalKeywords = 0 then 0.5
      else let matches = filter (\<lambda>keyword. keyword \<in> set goalKeywords) outputKeywords
           in real (length matches)
                / real (max (max (length outputKeywords) (length goalKeywords)) 1))"


section \<open>Data model\<close>

text \<open>
  Loosely structured values (requirements, acceptance criteria, architecture and testing
  descriptions) are JSON data.  An absent property (\<^verbatim>\<open>undefined\<close>) is \<open>None\<close>.
\<close>

datatype jsdata =
    JNull | JBool bool | JNum real | JStr string
  | JArr "jsdata list" | JObj "(string \<times> jsdata) list"

fun truthy :: "jsdata \<Rightarrow> bool" where
  "truthy JNull = False"
| "truthy (JBool b) = b"
| "truthy (JNum x) = (x \<noteq> 0)"
| "truthy (JStr s) = (s \<noteq> [])"
| "truthy (JArr xs) = True"
| "truthy (JObj kvs) = True"

definition truthy_opt :: "jsdata option \<Rightarrow> bool" where
  "truthy_opt v = (case v of None \<Rightarrow> False | Some d \<Rightarrow> truthy d)"

text \<open>\<^verbatim>\<open>v[k]\<close> for a property \<open>k\<close> that only an object can own.\<close>

fun get_field :: "jsdata \<Rightarrow> string \<Rightarrow> jsdata option" where
  "get_field (JObj kvs) k = map_of kvs k"
| "get_field v k = None"

text \<open>\<^verbatim>\<open>Object.keys(v).length\<close> for a truthy \<open>v\<close>.\<close>

fun keys_count :: "jsdata \<Rightarrow> nat" where
  "keys_count (JObj kvs) = length kvs"
| "keys_count (JArr xs) = length xs"
| "keys_count (JStr s) = length s"
| "keys_count v = 0"

record risk =
  r_risk :: string
  r_mitigation :: "string option"

text \<open>\<^verbatim>\<open>v && v[k]\<close>, as a condition.\<close>

definition truthy_field :: "jsdata option \<Rightarrow> string \<Rightarrow> bool" where
  "truthy_field v k =
     (case v of None \<Rightarrow> False | Some d \<Rightarrow> truthy d \<and> truthy_opt (get_field d k))"

text \<open>
  A candidate solution: the properties that the critic reads, the five properties that the
  fixer attaches, and under \<open>s_rest\<close> whatever else the object holds, which matters to
  \<^verbatim>\<open>JSON.stringify\<close> alone.  The keys of an object are distinct.
\<close>

record solution =
  s_name :: "string option"
  s_description :: "string option"
  s_type :: "string option"
  s_technicalDetails :: "string option"
  s_architecture :: "jsdata option"
  s_testing :: "jsdata option"
  s_errorHandling :: "jsdata option"
  s_complexity :: "real option"
  s_resourceRequirements :: "jsdata option"
  s_timeline :: "jsdata option"
  s_risks :: "risk list option"
  s_innovative :: "jsdata option"
  s_novel :: "jsdata option"
  s_sprintAlignmentEnhancement :: "jsdata option"
  s_technicalEnhancements :: "jsdata option"
  s_feasibilityImprovements :: "jsdata option"
  s_riskMitigations :: "jsdata option"
  s_innovativeEnhancements :: "jsdata option"
  s_rest :: "(string \<times> jsdata) list"

text \<open>
  The task data (agent output) submitted by a caller.  A field that is present has the
  type that the data model gives it; the fields of type \<open>bool\<close> are read for their
  truthiness only, an absent one being false.
\<close>

record taskOutput =
  t_id :: "string option"
  t_description :: "string option"
  t_type :: "string option"
  t_complexity :: "real option"
  t_solutions :: "solution list option"
  t_documentation :: bool
  t_collaboration :: bool
  t_architecture :: "jsdata option"
  t_testing :: bool
  t_enhanced :: bool
  t_improvementCycles :: "nat option"

text \<open>
  The sprint context is parsed from a file, so the entry for the required patterns need
  not be the list that the engine expects: it is a list of patterns, or a value that is
  no array.
\<close>

datatype nonarray =
    NNull | NBool bool | NNum real | NStr string | NObj "(string \<times> jsdata) list"

fun truthy_nonarray :: "nonarray \<Rightarrow> bool" where
  "truthy_nonarray NNull = False"
| "truthy_nonarray (NBool b) = b"
| "truthy_nonarray (NNum x) = (x \<noteq> 0)"
| "truthy_nonarray (NStr s) = (s \<noteq> [])"
| "truthy_nonarray (NObj kvs) = True"

datatype patterns = PatternList "string list" | NoList nonarray

text \<open>The constraints that the engine reads, and under \<open>c_rest\<close> the other entries of the
  mapping.\<close>

record constraints =
  maxComplexity :: "real option"
  requiredPatterns :: "patterns option"
  c_rest :: "(string \<times> jsdata) list"

record qualityStandards =
  requireTesting :: bool
  requireDocumentation :: bool
  requireArchitecture :: bool
  minimumComplexity :: "real option"

record sprintContext =
  goals :: "string list option"
  requirements :: "jsdata option"
  constraints :: "constraints option"
  acceptance_criteria :: "jsdata option"
  qualityStandards :: "qualityStandards option"
  allowInnovation :: "bool option"

text \<open>The values that the code hands to \<^verbatim>\<open>JSON.stringify\<close>.\<close>

datatype jsvalue =
    VGoals "string list" | VData jsdata | VConstraints constraints | VSolution solution

text \<open>
  What a call takes from its environment: the runtime's \<^verbatim>\<open>JSON.stringify\<close>, the clock
  (\<^verbatim>\<open>Date.now()\<close>, in milliseconds; a time stamp is the clock value it was made from),
  the identifier drawn for the verification, and whether the write of the memory file
  succeeds.
\<close>

record env =
  stringify :: "jsvalue \<Rightarrow> string"
  now :: int
  fresh_id :: string
  write_ok :: bool

datatype jserror = TypeError string

record check =
  score :: real
  passed :: bool

record checks =
  sprintAlignment :: check
  qualityStandardsCheck :: check
  crossAgentConsistency :: check
  historicalCompliance :: check
  contextAccuracy :: check

record verificationResult =
  verificationId :: string
  v_timestamp :: int
  v_mode :: string
  v_score :: real
  v_threshold :: "real option"
  verified :: bool
  v_checks :: checks
  agentOutput :: taskOutput
  v_sprintContext :: "sprintContext option"

record example =
  ex_timestamp :: int
  ex_score :: real
  ex_output :: taskOutput

record summary =
  avgComplexity :: real
  commonKeywords :: "string list"

record pattern =
  p_count :: nat
  p_examples :: "example list"
  p_summary :: summary

record memoryData =
  m_verificationMemory :: "(string \<times> verificationResult) list"
  m_successPatterns :: "(string \<times> pattern) list"
  m_rollbackHistory :: "verificationResult list"
  m_lastUpdated :: int

text \<open>
  The verification layer.  The two \<^verbatim>\<open>Map\<close>s are association lists in insertion order,
  written with \<^const>\<open>AList.update\<close> (\<^verbatim>\<open>Map.set\<close>); \<open>memoryFile\<close> is the content of
  \<^verbatim>\<open>verification-memory.json\<close>.
\<close>

record verificationLayer =
  mode :: string
  verificationMemory :: "(string \<times> verificationResult) list"
  successPatterns :: "(string \<times> pattern) list"
  rollbackHistory :: "verificationResult list"
  memoryFile :: "memoryData option"


section \<open>Verification layer\<close>

text \<open>
  \<^verbatim>\<open>this.thresholds[this.mode]\<close>.  The mode is a string; for a mode without a threshold the
  comparison \<^verbatim>\<open>verificationScore >= threshold\<close> is false.
\<close>

definition thresholds :: "string \<Rightarrow> real option" where
  "thresholds m =
     (if m = ''strict'' then Some 0.9
      else if m = ''moderate'' then Some 0.7
      else if m = ''dev'' then Some 0.5
      else None)"

text \<open>\<^verbatim>\<open>agentOutput.description || ''\<close>\<close>

definition description_or_empty :: "taskOutput \<Rightarrow> string" where
  "description_or_empty output = (case t_description output of None \<Rightarrow> [] | Some d \<Rightarrow> d)"

text \<open>\<^verbatim>\<open>x.complexity || 0\<close>\<close>

definition complexity_or_zero :: "taskOutput \<Rightarrow> real" where
  "complexity_or_zero output = (case t_complexity output of None \<Rightarrow> 0 | Some c \<Rightarrow> c)"

text \<open>A sprint context of \<open>None\<close> is \<^verbatim>\<open>null\<close>: reading a property of it throws.\<close>

definition null_read :: "string \<Rightarrow> jserror" where
  "null_read property =
     TypeError (''Cannot read properties of null (reading '' @ [CHR 0x27] @ property
       @ [CHR 0x27] @ '')'')"

definition verifySprintAlignment :: "taskOutput \<Rightarrow> sprintContext option \<Rightarrow> jserror + check" where
  "verifySprintAlignment output sprintContext =
     (case sprintContext of
        None \<Rightarrow> Inl (null_read ''goals'')
      | Some ctx \<Rightarrow>
          let sprintGoals = (case goals ctx of None \<Rightarrow> [] | Some gs \<Rightarrow> gs);
              outputKeywords = extractKeywords (description_or_empty output);
              goalKeywords = concat (map extractKeywords sprintGoals);
              alignmentScore = calculateKeywordAlignment outputKeywords goalKeywords
          in Inr \<lparr>score = alignmentScore, passed = alignmentScore > 0.6\<rparr>)"

definition validateOutputStructure :: "taskOutput \<Rightarrow> bool" where
  "validateOutputStructure output = (t_description output \<noteq> None \<and> t_type output \<noteq> None)"

record qualityChecks =
  hasDescription :: bool
  hasValidType :: bool
  hasComplexityEstimate :: bool
  hasProperStructure :: bool

definition qualityChecksOf :: "taskOutput \<Rightarrow> qualityChecks" where
  "qualityChecksOf output =
     \<lparr>hasDescription =
        (case t_description output of None \<Rightarrow> False | Some d \<Rightarrow> d \<noteq> [] \<and> length d > 10),
      hasValidType =
        (case t_type output of None \<Rightarrow> False
         | Some t \<Rightarrow> t \<noteq> [] \<and>
             t \<in> set [''implementation'', ''debugging'', ''analysis'', ''documentation'']),
      hasComplexityEstimate =
        (case t_complexity output of None \<Rightarrow> False | Some c \<Rightarrow> c \<noteq> 0 \<and> c \<ge> 0 \<and> c \<le> 1),
      hasProperStructure = validateOutputStructure output\<rparr>"

definition verifyQualityStandards :: "taskOutput \<Rightarrow> check" where
  "verifyQualityStandards output =
     (let qc = qualityChecksOf output;
          vals = [hasDescription qc, hasValidType qc, hasComplexityEstimate qc,
                  hasProperStructure qc];
          qualityScore = real (length (filter (\<lambda>b. b) vals)) / real (length vals)
      in \<lparr>score = qualityScore, passed = qualityScore > 0.75\<rparr>)"

definition calculateConsistencyScore :: "taskOutput \<Rightarrow> taskOutput list \<Rightarrow> real" where
  "calculateConsistencyScore output recentOutputs =
     (if length recentOutputs = 0 then 1.0
      else
        let sameTypeOutputs = filter (\<lambda>recent. t_type recent = t_type output) recentOutputs;
            consistencyScore1 =
              0 + (real (length sameTypeOutputs) / real (length recentOutputs)) * 0.3;
            factors1 = 0 + (0.3 :: real);
            avgComplexity =
              sum_list (map complexity_or_zero recentOutputs) / real (length recentOutputs);
            complexityDiff = \<bar>complexity_or_zero output - avgComplexity\<bar>;
            consistencyScore2 = consistencyScore1 + max 0 (1 - complexityDiff * 2) * 0.4;
            factors2 = factors1 + 0.4;
            outputKeywords = extractKeywords (description_or_empty output);
            recentKeywords =
              concat (map (\<lambda>recent. extractKeywords (description_or_empty recent)) recentOutputs);
            similarity = calculateKeywordAlignment outputKeywords recentKeywords;
            consistencyScore3 = consistencyScore2 + similarity * 0.3;
            factors3 = factors2 + 0.3
        in consistencyScore3 / factors3)"

definition verifyCrossAgentConsistency :: "env \<Rightarrow> verificationLayer \<Rightarrow> taskOutput \<Rightarrow> check" where
  "verifyCrossAgentConsistency E L output =
     (let recentOutputs =
            map agentOutput
              (filter (\<lambda>v. verified v \<and> now E - v_timestamp v < 24 * 60 * 60 * 1000)
                 (map snd (verificationMemory L)))
      in if length recentOutputs = 0 then \<lparr>score = 1.0, passed = True\<rparr>
         else let consistencyScore = calculateConsistencyScore output recentOutputs
              in \<lparr>score = consistencyScore, passed = consistencyScore > 0.5\<rparr>)"

definition calculateHistoricalCompliance :: "taskOutput \<Rightarrow> pattern \<Rightarrow> real" where
  "calculateHistoricalCompliance output pat =
     (let complexityInRange =
            (\<bar>complexity_or_zero output - avgComplexity (p_summary pat)\<bar> < 0.3);
          complianceScore1 = 0 + (if complexityInRange then 0.4 else 0);
          outputKeywords = extractKeywords (description_or_empty output);
          commonKeywordMatches =
            filter (\<lambda>keyword. keyword \<in> set (commonKeywords (p_summary pat))) outputKeywords;
          complianceScore2 = complianceScore1 +
            (real (length commonKeywordMatches)
               / real (max (length (commonKeywords (p_summary pat))) 1)) * 0.4
      in complianceScore2 + 0.2)"

text \<open>\<^verbatim>\<open>this.successPatterns.get(agentOutput.type)\<close>; patterns are stored under strings only.\<close>

definition verifyHistoricalCompliance :: "verificationLayer \<Rightarrow> taskOutput \<Rightarrow> check" where
  "verifyHistoricalCompliance L output =
     (case (case t_type output of None \<Rightarrow> None | Some t \<Rightarrow> map_of (successPatterns L) t) of
        None \<Rightarrow> \<lparr>score = 0.8, passed = True\<rparr>
      | Some successPattern \<Rightarrow>
          let complianceScore = calculateHistoricalCompliance output successPattern
          in \<lparr>score = complianceScore, passed = complianceScore > 0.6\<rparr>)"

definition calculateContextElementAccuracy :: "env \<Rightarrow> taskOutput \<Rightarrow> jsvalue \<Rightarrow> real" where
  "calculateContextElementAccuracy E output contextElement =
     (let outputKeywords = extractKeywords (description_or_empty output);
          contextKeywords = extractKeywords (stringify E contextElement)
      in calculateKeywordAlignment outputKeywords contextKeywords)"

definition contextElements :: "string list" where
  "contextElements = [''goals'', ''requirements'', ''constraints'', ''acceptance_criteria'']"

text \<open>\<^verbatim>\<open>sprintContext[element]\<close> where it is truthy (an array or an object always is).\<close>

definition truthy_data :: "jsdata option \<Rightarrow> jsvalue option" where
  "truthy_data v = (case v of None \<Rightarrow> None | Some d \<Rightarrow> if truthy d then Some (VData d) else None)"

definition context_element :: "sprintContext \<Rightarrow> string \<Rightarrow> jsvalue option" where
  "context_element ctx element =
     (if element = ''goals'' then map_option VGoals (goals ctx)
      else if element = ''requirements'' then truthy_data (requirements ctx)
      else if element = ''constraints'' then map_option VConstraints (constraints ctx)
      else if element = ''acceptance_criteria'' then truthy_data (acceptance_criteria ctx)
      else None)"

text \<open>The loop over \<open>contextElements\<close>, adding the score of each element that is present.\<close>

fun accuracy_loop :: "env \<Rightarrow> taskOutput \<Rightarrow> sprintContext \<Rightarrow> string list \<Rightarrow> real \<Rightarrow> real" where
  "accuracy_loop E output ctx [] accuracyScore = accuracyScore"
| "accuracy_loop E output ctx (element # rest) accuracyScore =
     (case context_element ctx element of
        None \<Rightarrow> accuracy_loop E output ctx rest accuracyScore
      | Some v \<Rightarrow>
          accuracy_loop E output ctx rest
            (accuracyScore + calculateContextElementAccuracy E output v))"

definition verifyContextAccuracy ::
  "env \<Rightarrow> taskOutput \<Rightarrow> sprintContext option \<Rightarrow> jserror + check" where
  "verifyContextAccuracy E output sprintContext =
     (case sprintContext of
        None \<Rightarrow> Inl (null_read ''goals'')
      | Some ctx \<Rightarrow>
          let accuracyScore =
                accuracy_loop E output ctx contextElements 0 / real (length contextElements)
          in Inr \<lparr>score = accuracyScore, passed = accuracyScore > 0.6\<rparr>)"

definition calculateVerificationScore :: "checks \<Rightarrow> real" where
  "calculateVerificationScore cs =
     (let scores = map score [sprintAlignment cs, qualityStandardsCheck cs,
                              crossAgentConsistency cs, historicalCompliance cs,
                              contextAccuracy cs]
      in foldl (\<lambda>sum score. sum + score) 0 scores / real (length scores))"


subsection \<open>Success patterns\<close>

text \<open>
  \<open>keywordCounts\<close> is a plain object used as a counter.  \<^verbatim>\<open>Object.entries\<close> lists its keys
  that are array indices first, in ascending numeric order, and the other keys in the
  order of their first insertion.  The keywords \<^verbatim>\<open>constructor\<close> and \<^verbatim>\<open>__proto__\<close>, which
  a plain object inherits, are counted here like any other keyword.
\<close>

definition is_digit :: "char \<Rightarrow> bool" where
  "is_digit c = (let n = (of_char c :: nat) in 48 \<le> n \<and> n \<le> 57)"

definition nat_of_digits :: "string \<Rightarrow> nat" where
  "nat_of_digits s = foldl (\<lambda>n c. 10 * n + (of_char c - 48)) 0 s"

definition is_array_index :: "string \<Rightarrow> bool" where
  "is_array_index k =
     (k \<noteq> [] \<and> list_all is_digit k \<and> (hd k \<noteq> CHR ''0'' \<or> length k = 1)
      \<and> nat_of_digits k < 2 ^ 32 - 1)"

definition count_keywords :: "string list \<Rightarrow> (string \<times> nat) list" where
  "count_keywords allKeywords =
     foldl (\<lambda>keywordCounts keyword.
              AList.update keyword
                ((case map_of keywordCounts keyword of None \<Rightarrow> 0 | Some n \<Rightarrow> n) + 1)
                keywordCounts)
       [] allKeywords"

definition object_entries :: "(string \<times> nat) list \<Rightarrow> (string \<times> nat) list" where
  "object_entries kvs =
     sort_key (\<lambda>kv. nat_of_digits (fst kv)) (filter (\<lambda>kv. is_array_index (fst kv)) kvs)
     @ filter (\<lambda>kv. \<not> is_array_index (fst kv)) kvs"

definition calculatePatternSummary :: "example list \<Rightarrow> summary" where
  "calculatePatternSummary examples =
     (let avgComplexity =
            foldl (\<lambda>sum ex. sum + complexity_or_zero (ex_output ex)) 0 examples
              / real (length examples);
          allKeywords =
            concat (map (\<lambda>ex. extractKeywords (description_or_empty (ex_output ex))) examples);
          keywordCounts = count_keywords allKeywords;
          commonKeywords =
            map fst (take 5 (sort_key (\<lambda>kv. - int (snd kv)) (object_entries keywordCounts)))
      in \<lparr>avgComplexity = avgComplexity, commonKeywords = commonKeywords\<rparr>)"

text \<open>\<^verbatim>\<open>xs.slice(-n)\<close>\<close>

definition slice_last :: "nat \<Rightarrow> 'a list \<Rightarrow> 'a list" where
  "slice_last n xs = drop (length xs - n) xs"

definition storeSuccessPattern :: "verificationLayer \<Rightarrow> verificationResult \<Rightarrow> verificationLayer" where
  "storeSuccessPattern L verificationResult =
     (let output = agentOutput verificationResult;
          type = (case t_type output of None \<Rightarrow> ''general''
                  | Some t \<Rightarrow> if t = [] then ''general'' else t);
          pat = (case map_of (successPatterns L) type of
                   None \<Rightarrow> \<lparr>p_count = 0, p_examples = [],
                             p_summary = \<lparr>avgComplexity = 0, commonKeywords = []\<rparr>\<rparr>
                 | Some p \<Rightarrow> p);
          examples1 = p_examples pat @
            [\<lparr>ex_timestamp = v_timestamp verificationResult,
              ex_score = v_score verificationResult, ex_output = output\<rparr>];
          examples2 = (if length examples1 > 10 then slice_last 10 examples1 else examples1);
          pat' = \<lparr>p_count = p_count pat + 1, p_examples = examples2,
                  p_summary = calculatePatternSummary examples2\<rparr>
      in L\<lparr>successPatterns := AList.update type pat' (successPatterns L)\<rparr>)"

text \<open>
  Only the copy of the rollback history that goes to the file is cut to its last 50
  entries.  A failed write is caught and changes nothing.
\<close>

definition persistVerificationMemory :: "env \<Rightarrow> verificationLayer \<Rightarrow> verificationLayer" where
  "persistVerificationMemory E L =
     (if write_ok E
      then L\<lparr>memoryFile := Some
               \<lparr>m_verificationMemory = verificationMemory L,
                m_successPatterns = successPatterns L,
                m_rollbackHistory = slice_last 50 (rollbackHistory L),
                m_lastUpdated = now E\<rparr>\<rparr>
      else L)"

text \<open>
  \<open>triggerRollback\<close> only logs: the rollback action it builds is dropped by its caller,
  so it is no part of the state.  The \<open>details\<close> of a check are left out.
\<close>

definition enforceVerification ::
  "env \<Rightarrow> verificationLayer \<Rightarrow> taskOutput \<Rightarrow> sprintContext option
     \<Rightarrow> jserror + (verificationResult \<times> verificationLayer)" where
  "enforceVerification E L output sprintContext =
     (case verifySprintAlignment output sprintContext of
        Inl err \<Rightarrow> Inl err
      | Inr sa \<Rightarrow>
     (case verifyContextAccuracy E output sprintContext of
        Inl err \<Rightarrow> Inl err
      | Inr ca \<Rightarrow>
          let verificationChecks =
                \<lparr>sprintAlignment = sa,
                 qualityStandardsCheck = verifyQualityStandards output,
                 crossAgentConsistency = verifyCrossAgentConsistency E L output,
                 historicalCompliance = verifyHistoricalCompliance L output,
                 contextAccuracy = ca\<rparr>;
              verificationScore = calculateVerificationScore verificationChecks;
              threshold = thresholds (mode L);
              result =
                \<lparr>verificationId = fresh_id E,
                 v_timestamp = now E,
                 v_mode = mode L,
                 v_score = verificationScore,
                 v_threshold = threshold,
                 verified = (case threshold of None \<Rightarrow> False | Some t \<Rightarrow> verificationScore \<ge> t),
                 v_checks = verificationChecks,
                 agentOutput = output,
                 v_sprintContext = sprintContext\<rparr>;
              L1 = (if \<not> verified result
                    then L\<lparr>rollbackHistory := rollbackHistory L @ [result]\<rparr>
                    else storeSuccessPattern L result);
              L2 = L1\<lparr>verificationMemory :=
                        AList.update (fresh_id E) result (verificationMemory L1)\<rparr>
          in Inr (result, persistVerificationMemory E L2)))"

record verificationStats =
  totalVerifications :: nat
  successfulVerifications :: nat
  rollbacks :: nat
  successRate :: real
  patterns :: nat
  st_mode :: string

definition getStats :: "verificationLayer \<Rightarrow> verificationStats" where
  "getStats L =
     (let totalVerifications = length (verificationMemory L);
          successfulVerifications =
            length (filter verified (map snd (verificationMemory L)));
          rollbacks = length (rollbackHistory L)
      in \<lparr>totalVerifications = totalVerifications,
          successfulVerifications = successfulVerifications,
          rollbacks = rollbacks,
          successRate =
            (if totalVerifications > 0
             then real successfulVerifications / real totalVerifications else 0),
          patterns = length (successPatterns L),
          st_mode = mode L\<rparr>)"


section \<open>Agent rating system\<close>

record taskResult =
  completed :: bool
  quality :: "real option"
  onTime :: bool
  tr_complexity :: "real option"
  innovative :: bool
  helpedOthers :: bool
  documentation :: bool

record complianceFactors =
  goalAlignment :: real
  constraintAdherence :: real
  qualityCompliance :: real

record sprintCompliance =
  overallCompliance :: "real option"
  factors :: "complianceFactors option"

record performanceData =
  pd_timestamp :: int
  pd_previousRating :: real
  pd_newRating :: real
  pd_ratingChange :: real
  pd_taskResult :: taskResult
  pd_sprintCompliance :: sprintCompliance
  pd_expectedScore :: real
  pd_actualScore :: real

record eloSystem =
  agentRatings :: "(string \<times> real) list"
  performanceHistory :: "(string \<times> performanceData list) list"

definition initialRating :: real where
  "initialRating = 1500"

definition kFactor :: real where
  "kFactor = 32"

record ratingUpdate =
  u_agentId :: string
  previousRating :: real
  newRating :: real
  ratingChange :: real
  performanceClass :: string
  expectedScore :: real
  actualScore :: real
  improvement :: bool

definition calculateExpectedScore :: "real \<Rightarrow> real \<Rightarrow> real" where
  "calculateExpectedScore agentRating taskComplexity =
     (let taskDifficultyRating = 1500 + (taskComplexity - 0.5) * 800;
          ratingDifference = agentRating - taskDifficultyRating
      in 1 / (1 + 10 powr (- ratingDifference / 400)))"

definition calculateActualScore :: "taskResult \<Rightarrow> sprintCompliance \<Rightarrow> real" where
  "calculateActualScore taskResult compliance =
     (let score0 = (0 :: real);
          score1 = (if completed taskResult then score0 + 0.4 else score0);
          score2 = (case quality taskResult of
                      None \<Rightarrow> score1
                    | Some q \<Rightarrow> if q \<noteq> 0 \<and> q > 0.8 then score1 + 0.1 else score1);
          score3 = (if onTime taskResult then score2 + 0.1 else score2);
          score4 = (case overallCompliance compliance of
                      None \<Rightarrow> score3
                    | Some c \<Rightarrow> if c \<noteq> 0 then score3 + c * 0.4 else score3);
          score5 = (if innovative taskResult then score4 + 0.1 else score4);
          score6 = (if helpedOthers taskResult then score5 + 0.05 else score5);
          score7 = (if documentation taskResult then score6 + 0.05 else score6)
      in max 0 (min 1 score7))"

definition classifyPerformance :: "real \<Rightarrow> string" where
  "classifyPerformance rating =
     (if rating \<ge> 2200 then ''Master''
      else if rating \<ge> 2000 then ''Expert''
      else if rating \<ge> 1800 then ''Advanced''
      else if rating \<ge> 1600 then ''Intermediate''
      else if rating \<ge> 1400 then ''Developing''
      else if rating \<ge> 1200 then ''Novice''
      else ''Beginner'')"

text \<open>The history of an agent keeps its last 50 records.  The write of the rankings file
  has no effect on the state in memory and is left out.\<close>

definition storePerformanceHistory :: "eloSystem \<Rightarrow> string \<Rightarrow> performanceData \<Rightarrow> eloSystem" where
  "storePerformanceHistory R agentId performanceData =
     (let history0 = (case map_of (performanceHistory R) agentId of None \<Rightarrow> [] | Some h \<Rightarrow> h);
          history1 = history0 @ [performanceData];
          history2 = (if length history1 > 50
                      then drop (length history1 - 50) history1 else history1)
      in R\<lparr>performanceHistory := AList.update agentId history2 (performanceHistory R)\<rparr>)"

text \<open>\<^verbatim>\<open>this.agentRatings.get(agentId) || this.initialRating\<close>\<close>

definition currentRatingOf :: "eloSystem \<Rightarrow> string \<Rightarrow> real" where
  "currentRatingOf R agentId =
     (case map_of (agentRatings R) agentId of
        None \<Rightarrow> initialRating
      | Some r \<Rightarrow> if r = 0 then initialRating else r)"

text \<open>\<^verbatim>\<open>taskResult.complexity || 0.5\<close>\<close>

definition taskComplexityOf :: "taskResult \<Rightarrow> real" where
  "taskComplexityOf taskResult =
     (case tr_complexity taskResult of None \<Rightarrow> 0.5 | Some c \<Rightarrow> if c = 0 then 0.5 else c)"

definition updateAgentRating ::
  "env \<Rightarrow> eloSystem \<Rightarrow> string \<Rightarrow> taskResult \<Rightarrow> sprintCompliance \<Rightarrow> ratingUpdate \<times> eloSystem" where
  "updateAgentRating E R agentId taskResult compliance =
     (let currentRating = currentRatingOf R agentId;
          taskComplexity = taskComplexityOf taskResult;
          expectedScore = calculateExpectedScore currentRating taskComplexity;
          actualScore = calculateActualScore taskResult compliance;
          ratingChange = kFactor * (actualScore - expectedScore);
          newRating = max 800 (min 2400 (currentRating + ratingChange));
          R1 = R\<lparr>agentRatings := AList.update agentId newRating (agentRatings R)\<rparr>;
          R2 = storePerformanceHistory R1 agentId
                 \<lparr>pd_timestamp = now E,
                  pd_previousRating = currentRating,
                  pd_newRating = newRating,
                  pd_ratingChange = ratingChange,
                  pd_taskResult = taskResult,
                  pd_sprintCompliance = compliance,
                  pd_expectedScore = expectedScore,
                  pd_actualScore = actualScore\<rparr>;
          performanceClass = classifyPerformance newRating
      in (\<lparr>u_agentId = agentId,
           previousRating = currentRating,
           newRating = newRating,
           ratingChange = ratingChange,
           performanceClass = performanceClass,
           expectedScore = expectedScore,
           actualScore = actualScore,
           improvement = (ratingChange > 0)\<rparr>, R2))"


section \<open>Critic-fixer cycle\<close>

datatype factor =
  SprintAlignment | TechnicalQuality | ImplementationFeasibility | RiskAssessment
  | InnovationFactor

text \<open>Of the evaluation context only the sprint goals are ever read.\<close>

record evaluationContext =
  sprintGoals :: "string list option"

definition maxCycles :: nat where
  "maxCycles = 3"

definition improvementThreshold :: real where
  "improvementThreshold = 0.1"

definition extractSolutionKeywords :: "env \<Rightarrow> solution \<Rightarrow> string list" where
  "extractSolutionKeywords E solution =
     (let text = toLowerCase (stringify E (VSolution solution))
      in take 20 (filter (\<lambda>word. length word > 3)
           (split_ws (filter (\<lambda>c. is_word c \<or> is_space c) text))))"

definition evaluateSprintAlignment :: "env \<Rightarrow> solution \<Rightarrow> evaluationContext \<Rightarrow> real" where
  "evaluateSprintAlignment E solution evaluationContext =
     (case sprintGoals evaluationContext of
        None \<Rightarrow> 0.7
      | Some gs \<Rightarrow>
          let solutionKeywords = extractSolutionKeywords E solution;
              goalKeywords =
                concat (map (\<lambda>goal. filter (\<lambda>word. length word > 3)
                                     (split_ws (toLowerCase goal))) gs);
              matchingKeywords =
                filter (\<lambda>keyword. keyword \<in> set goalKeywords) solutionKeywords
          in min 1.0 (real (length matchingKeywords)
                        / max (real (length goalKeywords) * 0.3) 1))"

definition evaluateTechnicalQuality :: "solution \<Rightarrow> real" where
  "evaluateTechnicalQuality solution =
     (let score0 = (0.5 :: real);
          score1 = (case s_technicalDetails solution of
                      None \<Rightarrow> score0
                    | Some d \<Rightarrow> if d \<noteq> [] \<and> length d > 50 then score0 + 0.2 else score0);
          score2 = (case s_architecture solution of
                      None \<Rightarrow> score1
                    | Some a \<Rightarrow> if truthy a \<and> keys_count a > 0 then score1 + 0.15 else score1);
          score3 = (case s_testing solution of
                      None \<Rightarrow> score2
                    | Some t \<Rightarrow>
                        if truthy t \<and> truthy_opt (get_field t ''strategy'')
                        then score2 + 0.1 else score2);
          score4 = (if truthy_opt (s_errorHandling solution) then score3 + 0.05 else score3)
      in min 1.0 score4)"

definition evaluateImplementationFeasibility :: "solution \<Rightarrow> real" where
  "evaluateImplementationFeasibility solution =
     (let score0 = (0.6 :: real);
          c = (case s_complexity solution of None \<Rightarrow> 0 | Some x \<Rightarrow> x);
          score1 = (if c \<noteq> 0 \<and> c \<le> 0.7 then score0 + 0.2
                    else if c \<noteq> 0 \<and> c > 0.9 then score0 - 0.1 else score0);
          score2 = (if truthy_field (s_resourceRequirements solution) ''realistic''
                    then score1 + 0.15 else score1);
          score3 = (if truthy_field (s_timeline solution) ''realistic''
                    then score2 + 0.05 else score2)
      in min 1.0 (max 0.1 score3))"

definition has_mitigation :: "risk \<Rightarrow> bool" where
  "has_mitigation r = (case r_mitigation r of None \<Rightarrow> False | Some m \<Rightarrow> m \<noteq> [])"

definition evaluateRiskAssessment :: "solution \<Rightarrow> real" where
  "evaluateRiskAssessment solution =
     (let score0 = (0.7 :: real);
          score1 =
            (case s_risks solution of
               None \<Rightarrow> score0
             | Some risks \<Rightarrow>
                 let riskCount = length risks;
                     mitigationCount = length (filter has_mitigation risks)
                 in if riskCount = 0 then score0 + 0.2
                    else if real mitigationCount / real riskCount > 0.8 then score0 + 0.3
                    else if real mitigationCount / real riskCount < 0.5 then score0 - 0.2
                    else score0)
      in min 1.0 (max 0.1 score1))"

definition evaluateInnovationFactor :: "solution \<Rightarrow> real" where
  "evaluateInnovationFactor solution =
     (let score0 = (0.5 :: real);
          score1 = (if truthy_field (s_innovative solution) ''features''
                    then score0 + 0.3 else score0);
          score2 = (if truthy_field (s_novel solution) ''approach''
                    then score1 + 0.2 else score1)
      in min 1.0 score2)"

fun weights :: "factor \<Rightarrow> real" where
  "weights SprintAlignment = 0.3"
| "weights TechnicalQuality = 0.25"
| "weights ImplementationFeasibility = 0.25"
| "weights RiskAssessment = 0.15"
| "weights InnovationFactor = 0.05"

record evaluation =
  e_score :: real
  e_factors :: "(factor \<times> real) list"
  e_strengths :: "factor list"
  e_weaknesses :: "factor list"
  e_improvementAreas :: "factor list"

text \<open>One pass of the loop over the factors in \<open>evaluateSolution\<close>.\<close>

definition add_factor :: "evaluation \<Rightarrow> factor \<times> real \<Rightarrow> evaluation" where
  "add_factor ev fs =
     (let factor = fst fs; score = snd fs;
          weightedScore = score * weights factor;
          ev1 = ev\<lparr>e_score := e_score ev + weightedScore\<rparr>
      in if score > 0.8 then ev1\<lparr>e_strengths := e_strengths ev1 @ [factor]\<rparr>
         else if score < 0.6
         then ev1\<lparr>e_weaknesses := e_weaknesses ev1 @ [factor],
                  e_improvementAreas := e_improvementAreas ev1 @ [factor]\<rparr>
         else ev1)"

definition evaluateSolution :: "env \<Rightarrow> solution \<Rightarrow> evaluationContext \<Rightarrow> evaluation" where
  "evaluateSolution E solution evaluationContext =
     (let factors =
            [(SprintAlignment, evaluateSprintAlignment E solution evaluationContext),
             (TechnicalQuality, evaluateTechnicalQuality solution),
             (ImplementationFeasibility, evaluateImplementationFeasibility solution),
             (RiskAssessment, evaluateRiskAssessment solution),
             (InnovationFactor, evaluateInnovationFactor solution)]
      in foldl add_factor
           \<lparr>e_score = 0, e_factors = factors, e_strengths = [], e_weaknesses = [],
            e_improvementAreas = []\<rparr>
           factors)"

record criticResult =
  cr_solutionIndex :: nat
  cr_solution :: solution
  cr_score :: real
  cr_strengths :: "factor list"
  cr_weaknesses :: "factor list"
  cr_improvementAreas :: "factor list"

text \<open>\<^verbatim>\<open>evaluations.sort((a, b) => b.score - a.score)\<close>: a stable sort, best score first.\<close>

definition criticPhase :: "env \<Rightarrow> solution list \<Rightarrow> evaluationContext \<Rightarrow> criticResult list" where
  "criticPhase E solutions evaluationContext =
     (let evaluations =
            map (\<lambda>(i, solution).
                   let ev = evaluateSolution E solution evaluationContext
                   in \<lparr>cr_solutionIndex = i, cr_solution = solution, cr_score = e_score ev,
                       cr_strengths = e_strengths ev, cr_weaknesses = e_weaknesses ev,
                       cr_improvementAreas = e_improvementAreas ev\<rparr>)
              (zip [0 ..< length solutions] solutions)
      in sort_key (\<lambda>ev. - cr_score ev) evaluations)"

definition enhanceSprintAlignment :: "evaluationContext \<Rightarrow> jsdata" where
  "enhanceSprintAlignment evaluationContext =
     JObj [(''alignmentStrategy'', JStr ''Enhanced alignment with sprint goals''),
           (''specificGoalMapping'',
              JArr (map JStr (case sprintGoals evaluationContext of
                                None \<Rightarrow> [] | Some gs \<Rightarrow> gs))),
           (''alignmentScore'', JStr ''improved'')]"

definition enhanceTechnicalQuality :: jsdata where
  "enhanceTechnicalQuality =
     JObj [(''addedArchitecture'',
              JStr ''Layered architecture with clear separation of concerns''),
           (''addedTesting'',
              JStr ''Unit tests, integration tests, and end-to-end testing strategy''),
           (''addedErrorHandling'', JStr ''Comprehensive error handling and logging''),
           (''codeQuality'', JStr ''Code review process and static analysis integration'')]"

definition enhanceFeasibility :: jsdata where
  "enhanceFeasibility =
     JObj [(''simplifiedApproach'', JStr ''Broken down into smaller, manageable phases''),
           (''resourceOptimization'', JStr ''Optimized resource requirements''),
           (''realisticTimeline'', JStr ''Adjusted timeline based on team capacity''),
           (''dependencyManagement'',
              JStr ''Clear dependency identification and management'')]"

definition enhanceRiskAssessment :: jsdata where
  "enhanceRiskAssessment =
     JObj [(''identifiedRisks'',
              JArr [JObj [(''risk'', JStr ''Technical complexity''),
                          (''mitigation'', JStr ''Proof of concept development'')],
                    JObj [(''risk'', JStr ''Timeline pressure''),
                          (''mitigation'', JStr ''Agile approach with MVP focus'')],
                    JObj [(''risk'', JStr ''Resource constraints''),
                          (''mitigation'', JStr ''Staged implementation approach'')]]),
           (''contingencyPlans'', JStr ''Multiple fallback options identified'')]"

definition enhanceInnovation :: jsdata where
  "enhanceInnovation =
     JObj [(''innovativeAspects'', JStr ''Unique approach to problem solving''),
           (''novelTechniques'', JStr ''Modern best practices and emerging patterns''),
           (''futureProofing'', JStr ''Extensible design for future enhancements'')]"

text \<open>One pass of the loop over the improvement areas in \<open>applySolutionFixes\<close>.\<close>

definition apply_fix :: "evaluationContext \<Rightarrow> solution \<Rightarrow> factor \<Rightarrow> solution" where
  "apply_fix evaluationContext improvedSolution area =
     (case area of
        SprintAlignment \<Rightarrow>
          improvedSolution\<lparr>s_sprintAlignmentEnhancement :=
            Some (enhanceSprintAlignment evaluationContext)\<rparr>
      | TechnicalQuality \<Rightarrow>
          improvedSolution\<lparr>s_technicalEnhancements := Some enhanceTechnicalQuality\<rparr>
      | ImplementationFeasibility \<Rightarrow>
          improvedSolution\<lparr>s_feasibilityImprovements := Some enhanceFeasibility\<rparr>
      | RiskAssessment \<Rightarrow>
          improvedSolution\<lparr>s_riskMitigations := Some enhanceRiskAssessment\<rparr>
      | InnovationFactor \<Rightarrow>
          improvedSolution\<lparr>s_innovativeEnhancements := Some enhanceInnovation\<rparr>)"

definition applySolutionFixes :: "solution \<Rightarrow> factor list \<Rightarrow> evaluationContext \<Rightarrow> solution" where
  "applySolutionFixes solution improvementAreas evaluationContext =
     foldl (apply_fix evaluationContext) solution improvementAreas"

record fixedSolution =
  fx_originalScore :: real
  fx_improvedScore :: real
  fx_improvement :: real
  fx_solution :: solution
  fx_appliedFixes :: "factor list"

definition fix_one :: "env \<Rightarrow> evaluationContext \<Rightarrow> criticResult \<Rightarrow> fixedSolution" where
  "fix_one E evaluationContext criticResult =
     (if cr_score criticResult < 0.8 \<and> length (cr_improvementAreas criticResult) > 0
      then
        let improvedSolution =
              applySolutionFixes (cr_solution criticResult)
                (cr_improvementAreas criticResult) evaluationContext;
            newEvaluation = evaluateSolution E improvedSolution evaluationContext
        in \<lparr>fx_originalScore = cr_score criticResult,
            fx_improvedScore = e_score newEvaluation,
            fx_improvement = e_score newEvaluation - cr_score criticResult,
            fx_solution = improvedSolution,
            fx_appliedFixes = cr_improvementAreas criticResult\<rparr>
      else
        \<lparr>fx_originalScore = cr_score criticResult,
         fx_improvedScore = cr_score criticResult,
         fx_improvement = 0,
         fx_solution = cr_solution criticResult,
         fx_appliedFixes = []\<rparr>)"

definition fixerPhase :: "env \<Rightarrow> criticResult list \<Rightarrow> evaluationContext \<Rightarrow> fixedSolution list" where
  "fixerPhase E criticResults evaluationContext = map (fix_one E evaluationContext) criticResults"

record improvementStats =
  originalAverage :: real
  improvedAverage :: real
  avgImprovement :: real
  significantImprovement :: bool
  improvementCount :: nat

definition calculateImprovement :: "criticResult list \<Rightarrow> fixedSolution list \<Rightarrow> improvementStats" where
  "calculateImprovement originalResults fixedResults =
     (let originalAvg =
            foldl (\<lambda>sum r. sum + cr_score r) 0 originalResults / real (length originalResults);
          improvedAvg =
            foldl (\<lambda>sum r. sum + fx_improvedScore r) 0 fixedResults / real (length fixedResults);
          avgImprovement = improvedAvg - originalAvg;
          significantImprovement = (avgImprovement > improvementThreshold)
      in \<lparr>originalAverage = originalAvg,
          improvedAverage = improvedAvg,
          avgImprovement = avgImprovement,
          significantImprovement = significantImprovement,
          improvementCount = length (filter (\<lambda>r. fx_improvement r > 0) fixedResults)\<rparr>)"

text \<open>
  The \<^verbatim>\<open>while (cycle < this.maxCycles)\<close> loop, on its three variables.  On an empty list
  of solutions the source divides zero by zero; the statements below are about non-empty
  lists.
\<close>

function cycle_loop ::
  "env \<Rightarrow> evaluationContext \<Rightarrow> solution list \<Rightarrow> nat \<Rightarrow> improvementStats list
     \<Rightarrow> solution list \<times> nat \<times> improvementStats list" where
  "cycle_loop E evaluationContext currentSolutions cycle improvements =
     (if cycle < maxCycles
      then
        let cycle' = cycle + 1;
            criticResults = criticPhase E currentSolutions evaluationContext;
            fixedSolutions = fixerPhase E criticResults evaluationContext;
            improvement = calculateImprovement criticResults fixedSolutions;
            improvements' = improvements @ [improvement]
        in if significantImprovement improvement
           then cycle_loop E evaluationContext (map fx_solution fixedSolutions) cycle'
                  improvements'
           else (currentSolutions, cycle', improvements')
      else (currentSolutions, cycle, improvements))"
  by pat_completeness auto
termination
  by (relation "measure (\<lambda>(E, evaluationContext, currentSolutions, cycle, improvements).
                           maxCycles - cycle)") auto

declare cycle_loop.simps [simp del]

record cycleResult =
  originalSolutions :: "solution list"
  finalSolutions :: "solution list"
  cycles :: nat
  improvements :: "improvementStats list"
  finalScores :: "real list"
  res_avgImprovement :: real

definition evaluateAndImprove :: "env \<Rightarrow> solution list \<Rightarrow> evaluationContext \<Rightarrow> cycleResult" where
  "evaluateAndImprove E solutions evaluationContext =
     (case cycle_loop E evaluationContext solutions 0 [] of
        (currentSolutions, cycle, imps) \<Rightarrow>
          let finalEvaluation = criticPhase E currentSolutions evaluationContext
          in \<lparr>originalSolutions = solutions,
              finalSolutions = currentSolutions,
              cycles = cycle,
              improvements = imps,
              finalScores = map cr_score finalEvaluation,
              res_avgImprovement =
                foldl (\<lambda>sum imp. sum + avgImprovement imp) 0 imps / real (length imps)\<rparr>)"


section \<open>Accountability engine\<close>

record engineStats =
  totalTasks :: nat
  verificationsPassed :: nat
  verificationsBlocked :: nat
  improvementCycles :: nat
  agentsRanked :: nat

record learningData =
  ld_agentId :: string
  ld_timestamp :: int
  ld_taskType :: "string option"
  ld_complexity :: "real option"
  ld_verificationScore :: real
  ld_sprintCompliance :: "real option"
  ld_successful :: bool
  ld_improvements :: bool

record engine =
  verificationLayer :: verificationLayer
  eloSystem :: eloSystem
  stats :: engineStats
  agentPerformanceCache :: "(string \<times> learningData list) list"
  continuousLearning :: bool
  adaptiveThresholds :: bool

datatype suggestions =
    AlternativeSolutions nat "solution list" nat real
  | VerificationGuidance checks "string list"

datatype finalResult =
    Blocked string real checks suggestions
  | Approved real real string "real option" bool
  | ErrorResult string

fun status :: "finalResult \<Rightarrow> string" where
  "status (Blocked reason verificationScore improvementGuidance suggs) = ''blocked''"
| "status (Approved verificationScore eloRating cls compliance enhanced) = ''approved''"
| "status (ErrorResult msg) = ''error''"

fun message :: "jserror \<Rightarrow> string" where
  "message (TypeError msg) = msg"

text \<open>\<^verbatim>\<open>taskData.id || `task_${Date.now()}`\<close>\<close>

datatype taskId = GivenId string | GeneratedId int

record phases =
  verification :: "verificationResult option"
  criticFixer :: "cycleResult option"
  eloUpdate :: "ratingUpdate option"

record processingResult =
  pr_agentId :: string
  pr_taskId :: taskId
  pr_timestamp :: int
  pr_phases :: phases
  pr_finalResult :: "finalResult option"
  pr_improvements :: "suggestions option"

text \<open>\<^verbatim>\<open>taskData.complexity || 0.5\<close>\<close>

definition complexity_or_half :: "taskOutput \<Rightarrow> real" where
  "complexity_or_half taskData =
     (case t_complexity taskData of None \<Rightarrow> 0.5 | Some c \<Rightarrow> if c = 0 then 0.5 else c)"

definition goals_or_empty :: "sprintContext \<Rightarrow> string list" where
  "goals_or_empty ctx = (case goals ctx of None \<Rightarrow> [] | Some gs \<Rightarrow> gs)"

definition baseApproach :: "taskOutput \<Rightarrow> solution" where
  "baseApproach taskData =
     \<lparr>s_name = None,
      s_description =
        Some (case t_description taskData of
                None \<Rightarrow> ''Task implementation''
              | Some d \<Rightarrow> if d = [] then ''Task implementation'' else d),
      s_type =
        Some (case t_type taskData of
                None \<Rightarrow> ''implementation''
              | Some t \<Rightarrow> if t = [] then ''implementation'' else t),
      s_technicalDetails = Some ''Simplified approach focusing on core requirements'',
      s_architecture =
        Some (JObj [(''pattern'', JStr ''layered''), (''complexity'', JStr ''moderate'')]),
      s_testing =
        Some (JObj [(''strategy'', JStr ''unit_tests''), (''coverage'', JStr ''basic'')]),
      s_errorHandling = None,
      s_complexity = Some (complexity_or_half taskData * 0.8),
      s_resourceRequirements = None,
      s_timeline = None,
      s_risks = None,
      s_innovative = None,
      s_novel = None,
      s_sprintAlignmentEnhancement = None,
      s_technicalEnhancements = None,
      s_feasibilityImprovements = None,
      s_riskMitigations = None,
      s_innovativeEnhancements = None,
      s_rest = []\<rparr>"

definition generateAlternativeSolutions :: "taskOutput \<Rightarrow> sprintContext \<Rightarrow> solution list" where
  "generateAlternativeSolutions taskData ctx =
     (let base = baseApproach taskData;
          alternatives1 =
            [base\<lparr>s_name := Some ''Conservative Implementation'',
                  s_complexity := Some (complexity_or_half taskData * 0.6),
                  s_risks := Some [\<lparr>r_risk = ''Technical debt'',
                                    r_mitigation = Some ''Planned refactoring phase''\<rparr>]\<rparr>];
          alternatives2 = alternatives1 @
            [base\<lparr>s_name := Some ''Balanced Implementation'',
                  s_complexity := Some (complexity_or_half taskData),
                  s_architecture := Some (JObj [(''pattern'', JStr ''microservices''),
                                                (''complexity'', JStr ''moderate'')]),
                  s_testing := Some (JObj [(''strategy'', JStr ''comprehensive''),
                                           (''coverage'', JStr ''high'')])\<rparr>]
      in if allowInnovation ctx \<noteq> Some False
         then alternatives2 @
            [base\<lparr>s_name := Some ''Innovative Implementation'',
                  s_complexity := Some (complexity_or_half taskData * 1.2),
                  s_innovative := Some (JObj [(''features'', JBool True)]),
                  s_novel := Some (JObj [(''approach'', JBool True)]),
                  s_risks := Some [\<lparr>r_risk = ''New technology adoption'',
                                    r_mitigation = Some ''Proof of concept first''\<rparr>,
                                   \<lparr>r_risk = ''Timeline uncertainty'',
                                    r_mitigation = Some ''Agile iterations''\<rparr>]\<rparr>]
         else alternatives2)"

definition guidance_for :: "string \<Rightarrow> string list" where
  "guidance_for checkName =
     (if checkName = ''sprintAlignment''
      then [''Review sprint goals and align task objectives'',
            ''Include specific sprint goal references in task description'']
      else if checkName = ''qualityStandards''
      then [''Provide detailed task description (minimum 50 characters)'',
            ''Specify valid task type and complexity estimate'']
      else if checkName = ''crossAgentConsistency''
      then [''Review recent team outputs for consistency patterns'',
            ''Align with established team conventions'']
      else if checkName = ''historicalCompliance''
      then [''Study successful similar tasks from history'',
            ''Apply proven patterns and approaches'']
      else if checkName = ''contextAccuracy''
      then [''Verify understanding of sprint requirements'',
            ''Include references to specific context elements'']
      else [])"

definition generateVerificationGuidance :: "verificationResult \<Rightarrow> string list" where
  "generateVerificationGuidance verificationResult =
     (let cs = v_checks verificationResult;
          entries = [(''sprintAlignment'', sprintAlignment cs),
                     (''qualityStandards'', qualityStandardsCheck cs),
                     (''crossAgentConsistency'', crossAgentConsistency cs),
                     (''historicalCompliance'', historicalCompliance cs),
                     (''contextAccuracy'', contextAccuracy cs)]
      in concat (map (\<lambda>(checkName, checkResult).
                        if \<not> passed checkResult then guidance_for checkName else [])
                   entries))"

definition generateImprovementSuggestions ::
  "env \<Rightarrow> taskOutput \<Rightarrow> sprintContext \<Rightarrow> verificationResult \<Rightarrow> suggestions" where
  "generateImprovementSuggestions E taskData ctx verificationResult =
     (let alternativeSolutions = generateAlternativeSolutions taskData ctx
      in if length alternativeSolutions > 0
         then
           let criticFixerResult =
                 evaluateAndImprove E alternativeSolutions
                   \<lparr>sprintGoals = Some (goals_or_empty ctx)\<rparr>
           in AlternativeSolutions
                (length (finalSolutions criticFixerResult))
                (take 3 (finalSolutions criticFixerResult))
                (cycles criticFixerResult)
                (res_avgImprovement criticFixerResult)
         else VerificationGuidance (v_checks verificationResult)
                (generateVerificationGuidance verificationResult))"

definition updateAgentELO ::
  "env \<Rightarrow> eloSystem \<Rightarrow> string \<Rightarrow> taskResult \<Rightarrow> sprintCompliance \<Rightarrow> ratingUpdate \<times> eloSystem" where
  "updateAgentELO E R agentId taskResult compliance =
     updateAgentRating E R agentId taskResult compliance"

text \<open>The engine's own \<open>extractKeywords\<close> has the body of the verification layer's.\<close>

definition calculateGoalAlignment :: "taskOutput \<Rightarrow> string list \<Rightarrow> real" where
  "calculateGoalAlignment taskData gs =
     (let taskKeywords = extractKeywords (description_or_empty taskData);
          goalKeywords = concat (map extractKeywords gs)
      in if length goalKeywords = 0 then 0.8
         else let matches = filter (\<lambda>keyword. keyword \<in> set goalKeywords) taskKeywords
              in min 1.0 (real (length matches) / (real (length goalKeywords) * 0.3)))"

text \<open>\<^verbatim>\<open>s.includes(p)\<close>\<close>

fun starts_with :: "string \<Rightarrow> string \<Rightarrow> bool" where
  "starts_with s [] = True"
| "starts_with [] (p # ps) = False"
| "starts_with (c # cs) (p # ps) = (c = p \<and> starts_with cs ps)"

fun str_includes :: "string \<Rightarrow> string \<Rightarrow> bool" where
  "str_includes [] p = (p = [])"
| "str_includes (c # cs) p = (starts_with (c # cs) p \<or> str_includes cs p)"

text \<open>
  \<^verbatim>\<open>constraints.requiredPatterns.every(...)\<close> throws when the entry is truthy and no array.
\<close>

definition calculateConstraintAdherence ::
  "env \<Rightarrow> taskOutput \<Rightarrow> constraints \<Rightarrow> jserror + real" where
  "calculateConstraintAdherence E taskData cons =
     (let adherence0 = (1.0 :: real);
          adherence1 =
            (case (maxComplexity cons, t_complexity taskData) of
               (Some m, Some c) \<Rightarrow> if m \<noteq> 0 \<and> c > m then adherence0 - 0.3 else adherence0
             | _ \<Rightarrow> adherence0)
      in case requiredPatterns cons of
           None \<Rightarrow> Inr (max 0 adherence1)
         | Some (NoList v) \<Rightarrow>
             if truthy_nonarray v
             then Inl (TypeError ''constraints.requiredPatterns.every is not a function'')
             else Inr (max 0 adherence1)
         | Some (PatternList ps) \<Rightarrow>
             let hasRequiredPatterns =
                   list_all (\<lambda>pat.
                      case t_architecture taskData of
                        None \<Rightarrow> False
                      | Some a \<Rightarrow> truthy a \<and> str_includes (stringify E (VData a)) pat) ps
             in Inr (max 0 (if \<not> hasRequiredPatterns then adherence1 - 0.2 else adherence1)))"

definition calculateQualityCompliance :: "taskOutput \<Rightarrow> qualityStandards \<Rightarrow> real" where
  "calculateQualityCompliance taskData qs =
     (let compliance0 = (0 :: real);
          compliance1 = (if requireTesting qs \<and> t_testing taskData
                         then compliance0 + 0.3 else compliance0);
          compliance2 = (if requireDocumentation qs \<and> t_documentation taskData
                         then compliance1 + 0.3 else compliance1);
          compliance3 = (if requireArchitecture qs \<and> truthy_opt (t_architecture taskData)
                         then compliance2 + 0.2 else compliance2);
          compliance4 =
            (case (minimumComplexity qs, t_complexity taskData) of
               (Some m, Some c) \<Rightarrow> if m \<noteq> 0 \<and> c \<ge> m then compliance3 + 0.2 else compliance3
             | _ \<Rightarrow> compliance3)
      in min 1.0 (compliance4 + 0.5))"

definition calculateSprintCompliance ::
  "env \<Rightarrow> taskOutput \<Rightarrow> sprintContext \<Rightarrow> jserror + sprintCompliance" where
  "calculateSprintCompliance E taskData ctx =
     (let goalAlignment =
            (case goals ctx of
               None \<Rightarrow> 0.8
             | Some gs \<Rightarrow> if length gs > 0 then calculateGoalAlignment taskData gs else 0.8);
          compliance1 =
            (case goals ctx of
               None \<Rightarrow> 0 + 0.32
             | Some gs \<Rightarrow> if length gs > 0 then 0 + goalAlignment * 0.4 else 0 + 0.32)
      in case (case constraints ctx of
                 None \<Rightarrow> Inr 0.9
               | Some cons \<Rightarrow> calculateConstraintAdherence E taskData cons) of
           Inl err \<Rightarrow> Inl err
         | Inr adherence \<Rightarrow>
             let compliance2 =
                   (case constraints ctx of
                      None \<Rightarrow> compliance1 + 0.27
                    | Some cons \<Rightarrow> compliance1 + adherence * 0.3);
                 qualityCompliance =
                   (case qualityStandards ctx of
                      None \<Rightarrow> 0.8 | Some qs \<Rightarrow> calculateQualityCompliance taskData qs);
                 compliance3 =
                   (case qualityStandards ctx of
                      None \<Rightarrow> compliance2 + 0.24
                    | Some qs \<Rightarrow> compliance2 + qualityCompliance * 0.3)
             in Inr \<lparr>overallCompliance = Some (min 1.0 compliance3),
                     factors = Some \<lparr>goalAlignment = goalAlignment,
                                     constraintAdherence = adherence,
                                     qualityCompliance = qualityCompliance\<rparr>\<rparr>)"

definition updateContinuousLearning ::
  "env \<Rightarrow> engine \<Rightarrow> string \<Rightarrow> taskOutput \<Rightarrow> verificationResult \<Rightarrow> sprintCompliance \<Rightarrow> engine" where
  "updateContinuousLearning E G agentId taskData verificationResult compliance =
     (let learningData =
            \<lparr>ld_agentId = agentId,
             ld_timestamp = now E,
             ld_taskType = t_type taskData,
             ld_complexity = t_complexity taskData,
             ld_verificationScore = v_score verificationResult,
             ld_sprintCompliance = overallCompliance compliance,
             ld_successful = verified verificationResult,
             ld_improvements = t_enhanced taskData\<rparr>;
          agentHistory0 =
            (case map_of (agentPerformanceCache G) agentId of None \<Rightarrow> [] | Some h \<Rightarrow> h);
          agentHistory1 = agentHistory0 @ [learningData];
          agentHistory2 =
            (if length agentHistory1 > 50
             then drop (length agentHistory1 - 50) agentHistory1 else agentHistory1)
      in G\<lparr>agentPerformanceCache :=
             AList.update agentId agentHistory2 (agentPerformanceCache G)\<rparr>)"


text \<open>
  The outcome of a call: the promise is rejected with an error, or it resolves to a
  processing result.  Either way the engine is left in a new state, and the caller's task
  data object, which the call may write to, in a new value.
\<close>

datatype outcome =
    Threw jserror engine
  | Returned processingResult engine taskOutput

text \<open>
  The body of the \<^verbatim>\<open>try\<close> block: \<open>Inl\<close> is a thrown error, with the processing result,
  the state of the engine and the task data at that moment.  The verification record and
  the success pattern hold the task data object itself; they are kept here with its value
  at the time of the verification, since nothing reads from them the three fields that
  the critic-fixer phase writes later.
\<close>

definition try_block ::
  "env \<Rightarrow> engine \<Rightarrow> string \<Rightarrow> taskOutput \<Rightarrow> sprintContext option \<Rightarrow> processingResult
     \<Rightarrow> (jserror \<times> processingResult \<times> engine \<times> taskOutput)
        + (processingResult \<times> engine \<times> taskOutput)" where
  "try_block E G agentId taskData sprintContext processingResult =
     (case enforceVerification E (verificationLayer G) taskData sprintContext of
        Inl err \<Rightarrow> Inl (err, processingResult, G, taskData)
      | Inr (verificationResult, L') \<Rightarrow>
     (case sprintContext of
        None \<Rightarrow>
          Inl (null_read ''goals'', processingResult, G\<lparr>verificationLayer := L'\<rparr>, taskData)
      | Some ctx \<Rightarrow>
          let G1 = G\<lparr>verificationLayer := L'\<rparr>;
              pr1 = processingResult
                      \<lparr>pr_phases := (pr_phases processingResult)
                                      \<lparr>verification := Some verificationResult\<rparr>\<rparr>
          in
          if \<not> verified verificationResult
          then
            let G2 = G1\<lparr>stats := (stats G1)
                          \<lparr>verificationsBlocked := verificationsBlocked (stats G1) + 1\<rparr>\<rparr>;
                improvementSuggestions =
                  generateImprovementSuggestions E taskData ctx verificationResult;
                pr2 = pr1\<lparr>pr_improvements := Some improvementSuggestions,
                          pr_finalResult := Some
                            (Blocked ''verification_failed'' (v_score verificationResult)
                               (v_checks verificationResult) improvementSuggestions)\<rparr>;
                upd = updateAgentELO E (eloSystem G2) agentId
                        \<lparr>completed = False,
                         quality = Some (v_score verificationResult),
                         onTime = False,
                         tr_complexity = Some (complexity_or_half taskData),
                         innovative = False,
                         helpedOthers = False,
                         documentation = False\<rparr>
                        \<lparr>overallCompliance = Some (v_score verificationResult),
                         factors = None\<rparr>
            in Inr (pr2, G2\<lparr>eloSystem := snd upd\<rparr>, taskData)
          else
            let G2 = G1\<lparr>stats := (stats G1)
                          \<lparr>verificationsPassed := verificationsPassed (stats G1) + 1\<rparr>\<rparr>;
                runCriticFixer =
                  (continuousLearning G2 \<and>
                   (case t_solutions taskData of None \<Rightarrow> False | Some sols \<Rightarrow> length sols > 1));
                criticFixerResult =
                  evaluateAndImprove E
                    (case t_solutions taskData of None \<Rightarrow> [] | Some sols \<Rightarrow> sols)
                    \<lparr>sprintGoals = Some (goals_or_empty ctx)\<rparr>;
                pr2 = (if runCriticFixer
                       then pr1\<lparr>pr_phases := (pr_phases pr1)
                                  \<lparr>criticFixer := Some criticFixerResult\<rparr>\<rparr>
                       else pr1);
                G3 = (if runCriticFixer
                      then G2\<lparr>stats := (stats G2)
                                 \<lparr>improvementCycles := improvementCycles (stats G2) + 1\<rparr>\<rparr>
                      else G2);
                taskData1 =
                  (if runCriticFixer \<and> length (finalSolutions criticFixerResult) > 0
                   then taskData\<lparr>t_solutions := Some (finalSolutions criticFixerResult),
                                 t_enhanced := True,
                                 t_improvementCycles := Some (cycles criticFixerResult)\<rparr>
                   else taskData)
            in
            (case calculateSprintCompliance E taskData1 ctx of
               Inl err \<Rightarrow> Inl (err, pr2, G3, taskData1)
             | Inr compliance \<Rightarrow>
                 let upd = updateAgentELO E (eloSystem G3) agentId
                             \<lparr>completed = True,
                              quality = Some (v_score verificationResult),
                              onTime = True,
                              tr_complexity = Some (complexity_or_half taskData1),
                              innovative = t_enhanced taskData1,
                              helpedOthers = t_collaboration taskData1,
                              documentation = t_documentation taskData1\<rparr>
                             compliance;
                     pr3 = pr2\<lparr>pr_phases := (pr_phases pr2)\<lparr>eloUpdate := Some (fst upd)\<rparr>\<rparr>;
                     G4 = G3\<lparr>eloSystem := snd upd,
                             stats := (stats G3)\<lparr>agentsRanked := agentsRanked (stats G3) + 1\<rparr>\<rparr>;
                     G5 = (if continuousLearning G4
                           then updateContinuousLearning E G4 agentId taskData1
                                  verificationResult compliance
                           else G4);
                     pr4 = pr3\<lparr>pr_finalResult := Some
                                 (Approved (v_score verificationResult) (newRating (fst upd))
                                    (performanceClass (fst upd)) (overallCompliance compliance)
                                    (t_enhanced taskData1))\<rparr>
                 in Inr (pr4, G5, taskData1))))"

text \<open>
  \<open>processAgentTask\<close>.  A task data argument of \<open>None\<close> is \<^verbatim>\<open>null\<close>.  The counter of
  tasks and the initial processing result, which reads \<^verbatim>\<open>taskData.id\<close>, come before the
  \<^verbatim>\<open>try\<close> block.
\<close>

definition processAgentTask ::
  "env \<Rightarrow> engine \<Rightarrow> string \<Rightarrow> taskOutput option \<Rightarrow> sprintContext option \<Rightarrow> outcome" where
  "processAgentTask E G agentId taskDataArg sprintContext =
     (let G0 = G\<lparr>stats := (stats G)\<lparr>totalTasks := totalTasks (stats G) + 1\<rparr>\<rparr>
      in case taskDataArg of
           None \<Rightarrow> Threw (null_read ''id'') G0
         | Some taskData \<Rightarrow>
             let processingResult =
                   \<lparr>pr_agentId = agentId,
                    pr_taskId = (case t_id taskData of
                                   None \<Rightarrow> GeneratedId (now E)
                                 | Some i \<Rightarrow> if i = [] then GeneratedId (now E) else GivenId i),
                    pr_timestamp = now E,
                    pr_phases = \<lparr>verification = None, criticFixer = None, eloUpdate = None\<rparr>,
                    pr_finalResult = None,
                    pr_improvements = None\<rparr>
             in (case try_block E G0 agentId taskData sprintContext processingResult of
                   Inr (pr, G', taskData') \<Rightarrow> Returned pr G' taskData'
                 | Inl (error, pr, G', taskData') \<Rightarrow>
                     Returned (pr\<lparr>pr_finalResult := Some (ErrorResult (message error))\<rparr>)
                       G' taskData'))"

definition adjustAdaptiveThresholds :: "engine \<Rightarrow> engine" where
  "adjustAdaptiveThresholds G =
     (let verificationStats = getStats (verificationLayer G);
          L = verificationLayer G
      in if totalVerifications verificationStats > 50
         then
           let successRate = successRate verificationStats
           in if successRate > 0.9
              then (if mode L = ''dev'' then G\<lparr>verificationLayer := L\<lparr>mode := ''moderate''\<rparr>\<rparr>
                    else if mode L = ''moderate''
                    then G\<lparr>verificationLayer := L\<lparr>mode := ''strict''\<rparr>\<rparr>
                    else G)
              else if successRate < 0.6
              then (if mode L = ''strict'' then G\<lparr>verificationLayer := L\<lparr>mode := ''moderate''\<rparr>\<rparr>
                    else if mode L = ''moderate''
                    then G\<lparr>verificationLayer := L\<lparr>mode := ''dev''\<rparr>\<rparr>
                    else G)
              else G
         else G)"


section \<open>Notions used in the statements\<close>

subsection \<open>The result and the state of a verification in closed form\<close>

definition verification_checks ::
  "env \<Rightarrow> verificationLayer \<Rightarrow> taskOutput \<Rightarrow> sprintContext \<Rightarrow> checks" where
  "verification_checks E L output ctx =
     \<lparr>sprintAlignment = projr (verifySprintAlignment output (Some ctx)),
      qualityStandardsCheck = verifyQualityStandards output,
      crossAgentConsistency = verifyCrossAgentConsistency E L output,
      historicalCompliance = verifyHistoricalCompliance L output,
      contextAccuracy = projr (verifyContextAccuracy E output (Some ctx))\<rparr>"

definition verification_result ::
  "env \<Rightarrow> verificationLayer \<Rightarrow> taskOutput \<Rightarrow> sprintContext \<Rightarrow> verificationResult" where
  "verification_result E L output ctx =
     \<lparr>verificationId = fresh_id E,
      v_timestamp = now E,
      v_mode = mode L,
      v_score = calculateVerificationScore (verification_checks E L output ctx),
      v_threshold = thresholds (mode L),
      verified =
        (case thresholds (mode L) of
           None \<Rightarrow> False
         | Some t \<Rightarrow> calculateVerificationScore (verification_checks E L output ctx) \<ge> t),
      v_checks = verification_checks E L output ctx,
      agentOutput = output,
      v_sprintContext = Some ctx\<rparr>"

definition layer_recorded :: "verificationLayer \<Rightarrow> verificationResult \<Rightarrow> verificationLayer" where
  "layer_recorded L r =
     (if \<not> verified r then L\<lparr>rollbackHistory := rollbackHistory L @ [r]\<rparr>
      else storeSuccessPattern L r)"

definition layer_after :: "env \<Rightarrow> verificationLayer \<Rightarrow> verificationResult \<Rightarrow> verificationLayer" where
  "layer_after E L r =
     persistVerificationMemory E
       ((layer_recorded L r)
          \<lparr>verificationMemory :=
             AList.update (fresh_id E) r (verificationMemory (layer_recorded L r))\<rparr>)"

subsection \<open>What \<open>processAgentTask\<close> does before its \<^verbatim>\<open>try\<close> block\<close>

definition counted :: "engine \<Rightarrow> engine" where
  "counted G = G\<lparr>stats := (stats G)\<lparr>totalTasks := totalTasks (stats G) + 1\<rparr>\<rparr>"

definition initial_result :: "env \<Rightarrow> string \<Rightarrow> taskOutput \<Rightarrow> processingResult" where
  "initial_result E agentId taskData =
     \<lparr>pr_agentId = agentId,
      pr_taskId = (case t_id taskData of
                     None \<Rightarrow> GeneratedId (now E)
                   | Some i \<Rightarrow> if i = [] then GeneratedId (now E) else GivenId i),
      pr_timestamp = now E,
      pr_phases = \<lparr>verification = None, criticFixer = None, eloUpdate = None\<rparr>,
      pr_finalResult = None,
      pr_improvements = None\<rparr>"

subsection \<open>The writes of the critic-fixer phase to the task data\<close>

text \<open>
  The phase runs when continuous learning is enabled and the task carries at least two
  candidate solutions; it then overwrites \<open>solutions\<close> and sets \<open>enhanced\<close> and
  \<open>improvementCycles\<close>.
\<close>

definition runs_critic_fixer :: "engine \<Rightarrow> taskOutput \<Rightarrow> bool" where
  "runs_critic_fixer G td \<longleftrightarrow>
     continuousLearning G
     \<and> (case t_solutions td of None \<Rightarrow> False | Some sols \<Rightarrow> length sols > 1)"

definition improved_task ::
  "env \<Rightarrow> taskOutput \<Rightarrow> solution list \<Rightarrow> sprintContext \<Rightarrow> taskOutput" where
  "improved_task E td sols ctx =
     td\<lparr>t_solutions :=
          Some (finalSolutions
                  (evaluateAndImprove E sols \<lparr>sprintGoals = Some (goals_or_empty ctx)\<rparr>)),
        t_enhanced := True,
        t_improvementCycles :=
          Some (cycles
                  (evaluateAndImprove E sols \<lparr>sprintGoals = Some (goals_or_empty ctx)\<rparr>))\<rparr>"

subsection \<open>The error that a phase of the pipeline throws, if any\<close>

definition phase_error ::
  "env \<Rightarrow> engine \<Rightarrow> string \<Rightarrow> taskOutput \<Rightarrow> sprintContext option \<Rightarrow> jserror option" where
  "phase_error E G agentId taskData sprintContext =
     (case try_block E (counted G) agentId taskData sprintContext
             (initial_result E agentId taskData) of
        Inl (err, pr, G', taskData') \<Rightarrow> Some err
      | Inr r \<Rightarrow> None)"

definition task_after_critic_fixer ::
  "env \<Rightarrow> engine \<Rightarrow> taskOutput \<Rightarrow> sprintContext \<Rightarrow> taskOutput" where
  "task_after_critic_fixer E G td ctx =
     (if runs_critic_fixer G td
      then improved_task E td (case t_solutions td of None \<Rightarrow> [] | Some sols \<Rightarrow> sols) ctx
      else td)"

subsection \<open>Selectors of an outcome\<close>

fun returned_result :: "outcome \<Rightarrow> processingResult option" where
  "returned_result (Returned pr G td) = Some pr"
| "returned_result (Threw err G) = None"

fun returned_task :: "outcome \<Rightarrow> taskOutput option" where
  "returned_task (Returned pr G td) = Some td"
| "returned_task (Threw err G) = None"

fun engine_after :: "outcome \<Rightarrow> engine" where
  "engine_after (Returned pr G td) = G"
| "engine_after (Threw err G) = G"

fun thrown :: "outcome \<Rightarrow> jserror option" where
  "thrown (Returned pr G td) = None"
| "thrown (Threw err G) = Some err"

subsection \<open>The cycles of the critic-fixer loop, one by one\<close>

text \<open>The solutions that a cycle hands to the next, and the improvement it measures.\<close>

definition fixed_once :: "env \<Rightarrow> evaluationContext \<Rightarrow> solution list \<Rightarrow> solution list" where
  "fixed_once E evaluationContext sols =
     map fx_solution
       (fixerPhase E (criticPhase E sols evaluationContext) evaluationContext)"

definition cycle_improvement :: "env \<Rightarrow> evaluationContext \<Rightarrow> solution list \<Rightarrow> improvementStats" where
  "cycle_improvement E evaluationContext sols =
     calculateImprovement (criticPhase E sols evaluationContext)
       (fixerPhase E (criticPhase E sols evaluationContext) evaluationContext)"

definition mean :: "real list \<Rightarrow> real" where
  "mean xs = sum_list xs / real (length xs)"

definition cycle_stats :: "env \<Rightarrow> evaluationContext \<Rightarrow> solution list \<Rightarrow> nat \<Rightarrow> improvementStats" where
  "cycle_stats E evaluationContext sols i =
     cycle_improvement E evaluationContext ((fixed_once E evaluationContext ^^ i) sols)"

subsection \<open>The context elements that are present\<close>

definition present_elements :: "sprintContext \<Rightarrow> jsvalue list" where
  "present_elements ctx = List.map_filter (context_element ctx) contextElements"

subsection \<open>One step of the verification mode, as the specification words it\<close>

definition tighten :: "string \<Rightarrow> string" where
  "tighten m = (if m = ''dev'' then ''moderate'' else if m = ''moderate'' then ''strict'' else m)"

definition loosen :: "string \<Rightarrow> string" where
  "loosen m = (if m = ''strict'' then ''moderate'' else if m = ''moderate'' then ''dev'' else m)"


section \<open>Initial states and example inputs\<close>

text \<open>The states that the constructors build.\<close>

definition newVerificationLayer :: "string \<Rightarrow> verificationLayer" where
  "newVerificationLayer m =
     \<lparr>mode = m, verificationMemory = [], successPatterns = [], rollbackHistory = [],
      memoryFile = None\<rparr>"

definition newEloSystem :: eloSystem where
  "newEloSystem = \<lparr>agentRatings = [], performanceHistory = []\<rparr>"

definition newEngine :: "string \<Rightarrow> engine" where
  "newEngine verificationMode =
     \<lparr>verificationLayer = newVerificationLayer verificationMode,
      eloSystem = newEloSystem,
      stats = \<lparr>totalTasks = 0, verificationsPassed = 0, verificationsBlocked = 0,
               improvementCycles = 0, agentsRanked = 0\<rparr>,
      agentPerformanceCache = [],
      continuousLearning = True,
      adaptiveThresholds = True\<rparr>"

text \<open>The output and the sprint context of scenario A of the specification.\<close>

definition scenarioA_output :: taskOutput where
  "scenarioA_output =
     \<lparr>t_id = None,
      t_description = Some ''Implement secure auth with JWT'',
      t_type = Some ''implementation'',
      t_complexity = Some 0.7,
      t_solutions = None,
      t_documentation = False,
      t_collaboration = False,
      t_architecture = None,
      t_testing = False,
      t_enhanced = False,
      t_improvementCycles = None\<rparr>"

definition scenarioA_context :: sprintContext where
  "scenarioA_context =
     \<lparr>goals = Some [''Implement secure user authentication''],
      requirements = None,
      constraints = None,
      acceptance_criteria = None,
      qualityStandards = None,
      allowInnovation = None\<rparr>"

text \<open>
  An environment for the examples.  Its \<open>stringify\<close> is \<^verbatim>\<open>JSON.stringify\<close> on a list of goals
  whose texts need no escaping, and on constraints that hold nothing but a text in place
  of the list of required patterns; the text it gives for any other value plays no part in
  the results evaluated below.
\<close>

fun join_commas :: "string list \<Rightarrow> string" where
  "join_commas [] = []"
| "join_commas [x] = x"
| "join_commas (x # y # ys) = x @ '','' @ join_commas (y # ys)"

definition stringify_goals :: "string list \<Rightarrow> string" where
  "stringify_goals gs =
     ''['' @ join_commas (map (\<lambda>g. [CHR 0x22] @ g @ [CHR 0x22]) gs) @ '']''"

definition stringify_constraints :: "constraints \<Rightarrow> string" where
  "stringify_constraints cons =
     (case (maxComplexity cons, requiredPatterns cons, c_rest cons) of
        (None, Some (NoList (NStr p)), []) \<Rightarrow>
          ''{'' @ [CHR 0x22] @ ''requiredPatterns'' @ [CHR 0x22] @ '':''
            @ [CHR 0x22] @ p @ [CHR 0x22] @ ''}''
      | _ \<Rightarrow> ''{}'')"

definition example_stringify :: "jsvalue \<Rightarrow> string" where
  "example_stringify v =
     (case v of
        VGoals gs \<Rightarrow> stringify_goals gs
      | VConstraints cons \<Rightarrow> stringify_constraints cons
      | _ \<Rightarrow> ''{}'')"

definition example_env :: env where
  "example_env =
     \<lparr>stringify = example_stringify,
      now = 1700000000000,
      fresh_id = ''verify_1700000000000_k3x9q2m1z'',
      write_ok = True\<rparr>"

text \<open>A task without any of the expected fields, and a sprint context without any element.\<close>

definition bare_output :: taskOutput where
  "bare_output =
     \<lparr>t_id = None, t_description = None, t_type = None, t_complexity = None,
      t_solutions = None, t_documentation = False, t_collaboration = False,
      t_architecture = None, t_testing = False, t_enhanced = False,
      t_improvementCycles = None\<rparr>"

definition bare_context :: sprintContext where
  "bare_context =
     \<lparr>goals = None, requirements = None, constraints = None, acceptance_criteria = None,
      qualityStandards = None, allowInnovation = None\<rparr>"

text \<open>Earlier verification results, the \<open>i\<close>-th with its own identifier.\<close>

definition sample_id :: "nat \<Rightarrow> string" where
  "sample_id i = ''verify_'' @ replicate (Suc i) (CHR ''7'')"

definition sample_result :: "bool \<Rightarrow> nat \<Rightarrow> verificationResult" where
  "sample_result ok i =
     \<lparr>verificationId = sample_id i,
      v_timestamp = 1600000000000 + int i,
      v_mode = ''dev'',
      v_score = (if ok then 0.8 else 0.4),
      v_threshold = Some 0.5,
      verified = ok,
      v_checks =
        \<lparr>sprintAlignment = \<lparr>score = (if ok then 0.8 else 0.4), passed = ok\<rparr>,
         qualityStandardsCheck = \<lparr>score = (if ok then 0.8 else 0.4), passed = ok\<rparr>,
         crossAgentConsistency = \<lparr>score = (if ok then 0.8 else 0.4), passed = ok\<rparr>,
         historicalCompliance = \<lparr>score = (if ok then 0.8 else 0.4), passed = ok\<rparr>,
         contextAccuracy = \<lparr>score = (if ok then 0.8 else 0.4), passed = ok\<rparr>\<rparr>,
      agentOutput = bare_output,
      v_sprintContext = Some bare_context\<rparr>"

definition sample_entry :: "bool \<Rightarrow> nat \<Rightarrow> string \<times> verificationResult" where
  "sample_entry ok i = (sample_id i, sample_result ok i)"

text \<open>
  A layer in mode \<open>m\<close> that remembers \<open>k\<close> failed verifications followed by \<open>n\<close> verified
  ones.  Its success patterns, which no statement below depends on, are left empty.
\<close>

definition sample_layer :: "string \<Rightarrow> nat \<Rightarrow> nat \<Rightarrow> verificationLayer" where
  "sample_layer m k n =
     \<lparr>mode = m,
      verificationMemory = map (sample_entry False) [0 ..< k] @ map (sample_entry True) [k ..< k + n],
      successPatterns = [],
      rollbackHistory = map (sample_result False) [0 ..< k],
      memoryFile = None\<rparr>"

text \<open>Scenario A with a sprint file that names a single required pattern, not in a list.\<close>

definition malformed_context :: sprintContext where
  "malformed_context =
     scenarioA_context
       \<lparr>constraints := Some \<lparr>maxComplexity = None,
                              requiredPatterns = Some (NoList (NStr ''layered'')),
                              c_rest = []\<rparr>\<rparr>"

text \<open>An engine that has rated one agent, and a task with two candidate solutions.\<close>

definition rated_engine :: "string \<Rightarrow> engine" where
  "rated_engine m =
     (newEngine m)\<lparr>eloSystem := \<lparr>agentRatings = [(''agent-1'', 1600)],
                                  performanceHistory = []\<rparr>\<rparr>"

definition two_solutions :: "solution list" where
  "two_solutions =
     [(baseApproach scenarioA_output)\<lparr>s_name := Some ''Session cookies''\<rparr>,
      (baseApproach scenarioA_output)\<lparr>s_name := Some ''Signed tokens''\<rparr>]"

definition scenarioA_with_solutions :: taskOutput where
  "scenarioA_with_solutions = scenarioA_output\<lparr>t_solutions := Some two_solutions\<rparr>"

definition sample_taskResult :: taskResult where
  "sample_taskResult =
     \<lparr>completed = True, quality = Some 0.9, onTime = True, tr_complexity = Some 0.7,
      innovative = False, helpedOthers = False, documentation = False\<rparr>"

section \<open>Verification\<close>

lemma verifySprintAlignment_Some:
  "\<exists>sa. verifySprintAlignment out (Some ctx) = Inr sa"
  by (simp add: verifySprintAlignment_def Let_def)

lemma verifyContextAccuracy_Some:
  "\<exists>ca. verifyContextAccuracy E out (Some ctx) = Inr ca"
  by (simp add: verifyContextAccuracy_def Let_def)

lemma enforce_Some:
  "enforceVerification E L out (Some ctx) =
     Inr (verification_result E L out ctx, layer_after E L (verification_result E L out ctx))"
proof -
  obtain sa where sa: "verifySprintAlignment out (Some ctx) = Inr sa"
    using verifySprintAlignment_Some by blast
  obtain ca where ca: "verifyContextAccuracy E out (Some ctx) = Inr ca"
    using verifyContextAccuracy_Some by blast
  show ?thesis
    unfolding enforceVerification_def verification_result_def verification_checks_def
      layer_after_def layer_recorded_def
    by (simp only: sa ca sum.case sum.sel Let_def)
qed

lemma enforce_None: "enforceVerification E L out None = Inl (null_read ''goals'')"
  by (simp add: enforceVerification_def verifySprintAlignment_def)

lemma calculateVerificationScore_mean:
  "calculateVerificationScore cs =
     (score (sprintAlignment cs) + score (qualityStandardsCheck cs)
        + score (crossAgentConsistency cs) + score (historicalCompliance cs)
        + score (contextAccuracy cs)) / 5"
  by (simp add: calculateVerificationScore_def)

lemma thresholds_values:
  "thresholds ''strict'' = Some (9/10)" "thresholds ''moderate'' = Some (7/10)"
  "thresholds ''dev'' = Some (1/2)"
  by (simp_all add: thresholds_def)

text \<open>
  Claim C1.  In each of the modes \<open>strict\<close>, \<open>moderate\<close> and \<open>dev\<close> a verification of an
  output against a sprint context returns a record whose \<open>verified\<close> flag holds exactly
  when its score is at least the threshold of the mode; the score is the unweighted mean
  of the five check scores; the thresholds are 0.9, 0.7 and 0.5, in strictly decreasing
  order.
\<close>

theorem verified_iff_threshold:
  assumes "m \<in> {''strict'', ''moderate'', ''dev''}" and "mode L = m"
  shows "\<exists>r L' t. enforceVerification E L out (Some ctx) = Inr (r, L')
           \<and> thresholds m = Some t \<and> v_threshold r = Some t
           \<and> (verified r \<longleftrightarrow> v_score r \<ge> t)
           \<and> v_score r =
               (score (sprintAlignment (v_checks r)) + score (qualityStandardsCheck (v_checks r))
                + score (crossAgentConsistency (v_checks r))
                + score (historicalCompliance (v_checks r))
                + score (contextAccuracy (v_checks r))) / 5
           \<and> thresholds ''strict'' = Some (9/10) \<and> thresholds ''moderate'' = Some (7/10)
           \<and> thresholds ''dev'' = Some (1/2)
           \<and> the (thresholds ''strict'') > the (thresholds ''moderate'')
           \<and> the (thresholds ''moderate'') > the (thresholds ''dev'')"
proof -
  from assms(1) have "m = ''strict'' \<or> m = ''moderate'' \<or> m = ''dev''" by simp
  then have "\<exists>t. thresholds m = Some t" using thresholds_values by blast
  then obtain t where t: "thresholds m = Some t" by blast
  let ?r = "verification_result E L out ctx"
  have e: "enforceVerification E L out (Some ctx) = Inr (?r, layer_after E L ?r)"
    by (rule enforce_Some)
  have vt: "v_threshold ?r = Some t" and vf: "verified ?r \<longleftrightarrow> v_score ?r \<ge> t"
    using t assms(2) by (simp_all add: verification_result_def)
  have vs: "v_score ?r =
               (score (sprintAlignment (v_checks ?r)) + score (qualityStandardsCheck (v_checks ?r))
                + score (crossAgentConsistency (v_checks ?r))
                + score (historicalCompliance (v_checks ?r))
                + score (contextAccuracy (v_checks ?r))) / 5"
    by (simp add: verification_result_def calculateVerificationScore_mean)
  have o1: "the (thresholds ''strict'') > the (thresholds ''moderate'')"
    and o2: "the (thresholds ''moderate'') > the (thresholds ''dev'')"
    by (simp_all add: thresholds_values)
  show ?thesis
    apply (rule exI [of _ ?r])
    apply (rule exI [of _ "layer_after E L ?r"])
    apply (rule exI [of _ t])
    using e t vt vf vs thresholds_values o1 o2 by blast
qed

theorem verified_iff_threshold_witness:
  "''moderate'' \<in> {''strict'', ''moderate'', ''dev''}
   \<and> mode (newVerificationLayer ''moderate'') = ''moderate''
   \<and> (\<exists>r L'. enforceVerification example_env (newVerificationLayer ''moderate'')
                 scenarioA_output (Some scenarioA_context) = Inr (r, L')
        \<and> v_threshold r = Some (7/10) \<and> (verified r \<longleftrightarrow> v_score r \<ge> 7/10))"
proof -
  have m: "''moderate'' \<in> {''strict'', ''moderate'', ''dev''}" by simp
  have l: "mode (newVerificationLayer ''moderate'') = ''moderate''"
    by (simp add: newVerificationLayer_def)
  from verified_iff_threshold [OF m l, of example_env scenarioA_output scenarioA_context]
  show ?thesis using m l by (auto simp add: thresholds_values)
qed

section \<open>Ratings\<close>

lemma map_of_update_same: "map_of (AList.update k v al) k = Some v"
  by (simp add: update_conv')

lemma updateAgentRating_newRating:
  "newRating (fst (updateAgentRating E R agentId taskResult compliance)) =
     max 800 (min 2400 (currentRatingOf R agentId
        + kFactor * (calculateActualScore taskResult compliance
             - calculateExpectedScore (currentRatingOf R agentId) (taskComplexityOf taskResult))))"
  by (simp add: updateAgentRating_def Let_def)

lemma updateAgentRating_stored:
  "map_of (agentRatings (snd (updateAgentRating E R agentId taskResult compliance))) agentId =
     Some (newRating (fst (updateAgentRating E R agentId taskResult compliance)))"
  by (simp add: updateAgentRating_def Let_def storePerformanceHistory_def map_of_update_same)

text \<open>
  Claim C2.  For an agent whose current rating lies in [800, 2400] and a task result whose
  complexity lies in [0, 1], whatever the sprint compliance, the new rating that
  \<open>updateAgentRating\<close> returns lies in [800, 2400], and it is the rating stored for
  the agent.
\<close>

theorem rating_stays_in_bounds:
  assumes "800 \<le> currentRatingOf R agentId" and "currentRatingOf R agentId \<le> 2400"
    and "tr_complexity taskResult = Some x" and "0 \<le> x" and "x \<le> 1"
  shows "800 \<le> newRating (fst (updateAgentRating E R agentId taskResult compliance))
       \<and> newRating (fst (updateAgentRating E R agentId taskResult compliance)) \<le> 2400
       \<and> currentRatingOf (snd (updateAgentRating E R agentId taskResult compliance)) agentId
           = newRating (fst (updateAgentRating E R agentId taskResult compliance))"
proof -
  let ?n = "newRating (fst (updateAgentRating E R agentId taskResult compliance))"
  have lo: "800 \<le> ?n" and hi: "?n \<le> 2400"
    by (simp_all add: updateAgentRating_newRating)
  from lo have "?n \<noteq> 0" by linarith
  then have "currentRatingOf (snd (updateAgentRating E R agentId taskResult compliance)) agentId = ?n"
    by (simp add: currentRatingOf_def updateAgentRating_stored)
  with lo hi show ?thesis by simp
qed

theorem rating_stays_in_bounds_witness:
  "800 \<le> currentRatingOf (eloSystem (rated_engine ''moderate'')) ''agent-1''
   \<and> currentRatingOf (eloSystem (rated_engine ''moderate'')) ''agent-1'' \<le> 2400
   \<and> tr_complexity sample_taskResult = Some 0.7 \<and> (0::real) \<le> 0.7 \<and> (0.7::real) \<le> 1
   \<and> 800 \<le> newRating (fst (updateAgentRating example_env (eloSystem (rated_engine ''moderate''))
                 ''agent-1'' sample_taskResult \<lparr>overallCompliance = Some 0.9, factors = None\<rparr>))
   \<and> newRating (fst (updateAgentRating example_env (eloSystem (rated_engine ''moderate''))
                 ''agent-1'' sample_taskResult \<lparr>overallCompliance = Some 0.9, factors = None\<rparr>))
        \<le> 2400"
proof -
  have r: "currentRatingOf (eloSystem (rated_engine ''moderate'')) ''agent-1'' = 1600"
    by (simp add: rated_engine_def currentRatingOf_def)
  have c: "tr_complexity sample_taskResult = Some 0.7"
    by (simp add: sample_taskResult_def)
  have lo: "800 \<le> currentRatingOf (eloSystem (rated_engine ''moderate'')) ''agent-1''"
    and hi: "currentRatingOf (eloSystem (rated_engine ''moderate'')) ''agent-1'' \<le> 2400"
    by (simp_all add: r)
  have x0: "(0::real) \<le> 0.7" and x1: "(0.7::real) \<le> 1" by simp_all
  from rating_stays_in_bounds [OF lo hi c x0 x1] lo hi c x0 x1
  show ?thesis by blast
qed


section \<open>Scenario A\<close>

lemma scenarioA_output_keywords:
  "extractKeywords ''Implement secure auth with JWT'' = [''implement'', ''secure'', ''auth'', ''with'']"
  by code_simp

lemma scenarioA_goal_keywords:
  "extractKeywords ''Implement secure user authentication''
     = [''implement'', ''secure'', ''user'', ''authentication'']"
  by code_simp

lemma scenarioA_context_keywords:
  "extractKeywords (stringify example_env (VGoals [''Implement secure user authentication'']))
     = [''implement'', ''secure'', ''user'', ''authentication'']"
  by code_simp

lemma scenarioA_overlap:
  "calculateKeywordAlignment [''implement'', ''secure'', ''auth'', ''with'']
     [''implement'', ''secure'', ''user'', ''authentication''] = 1/2"
  by (simp add: calculateKeywordAlignment_def)

lemma scenarioA_alignment:
  "verifySprintAlignment scenarioA_output (Some scenarioA_context)
     = Inr \<lparr>score = 1/2, passed = False\<rparr>"
  by (simp add: verifySprintAlignment_def scenarioA_output_def scenarioA_context_def
        description_or_empty_def scenarioA_output_keywords scenarioA_goal_keywords
        scenarioA_overlap)

text \<open>
  Claim C6, as amended.  For the output and the goals of scenario A the keyword overlap of
  the sprint-alignment check is 0.5 (two of the four keywords of the description are among
  the four keywords of the goal), which does not exceed 0.6, and the check does not pass.
\<close>

theorem scenarioA_alignment_is_half:
  "verifySprintAlignment scenarioA_output (Some scenarioA_context)
     = Inr \<lparr>score = 1/2, passed = False\<rparr>"
  by (rule scenarioA_alignment)

text \<open>Claim C6 as stated fails: the score does not exceed 0.6 and the check does not pass.\<close>

theorem scenarioA_alignment_counterexample:
  "\<not> (score (projr (verifySprintAlignment scenarioA_output (Some scenarioA_context))) > 0.6
      \<and> passed (projr (verifySprintAlignment scenarioA_output (Some scenarioA_context))))"
  by (simp add: scenarioA_alignment)

section \<open>Context accuracy\<close>

lemma accuracy_loop_sum:
  "accuracy_loop E out ctx es acc =
     acc + sum_list (map (calculateContextElementAccuracy E out)
                       (List.map_filter (context_element ctx) es))"
  by (induction es arbitrary: acc) (simp_all add: map_filter_simps split: option.splits)

lemma verifyContextAccuracy_eq:
  "verifyContextAccuracy E out (Some ctx) =
     Inr \<lparr>score = sum_list (map (calculateContextElementAccuracy E out) (present_elements ctx)) / 4,
          passed = sum_list (map (calculateContextElementAccuracy E out) (present_elements ctx)) / 4
                     > 0.6\<rparr>"
  by (simp add: verifyContextAccuracy_def accuracy_loop_sum present_elements_def
        contextElements_def Let_def)

text \<open>
  Claim C7, as amended.  The score of the context-accuracy check is the sum of the keyword
  overlaps between the output and the sprint-context elements that are present, divided
  by four, the number of elements looked for; when exactly one element is present the
  score is a quarter of the overlap with that element.  The check passes when the score
  exceeds 0.6.
\<close>

theorem context_accuracy_quarter_sum:
  "\<exists>c. verifyContextAccuracy E out (Some ctx) = Inr c
       \<and> score c =
           sum_list (map (calculateContextElementAccuracy E out) (present_elements ctx)) / 4
       \<and> (passed c \<longleftrightarrow> score c > 0.6)
       \<and> (\<forall>v. present_elements ctx = [v] \<longrightarrow>
             score c = calculateContextElementAccuracy E out v / 4)"
  by (simp add: verifyContextAccuracy_eq)

lemma scenarioA_present: 
  "present_elements scenarioA_context = [VGoals [''Implement secure user authentication'']]"
  by (simp add: present_elements_def contextElements_def context_element_def
        scenarioA_context_def map_filter_simps truthy_data_def)

lemma scenarioA_element_accuracy:
  "calculateContextElementAccuracy example_env scenarioA_output
     (VGoals [''Implement secure user authentication'']) = 1/2"
  by (simp add: calculateContextElementAccuracy_def scenarioA_output_def
        description_or_empty_def scenarioA_output_keywords scenarioA_context_keywords
        scenarioA_overlap)

theorem context_accuracy_quarter_sum_witness:
  "present_elements scenarioA_context = [VGoals [''Implement secure user authentication'']]
   \<and> verifyContextAccuracy example_env scenarioA_output (Some scenarioA_context)
       = Inr \<lparr>score = 1/8, passed = False\<rparr>"
proof -
  from context_accuracy_quarter_sum [of example_env scenarioA_output scenarioA_context]
  obtain c where c: "verifyContextAccuracy example_env scenarioA_output (Some scenarioA_context) = Inr c"
    and s: "score c = calculateContextElementAccuracy example_env scenarioA_output
               (VGoals [''Implement secure user authentication'']) / 4"
    and p: "passed c \<longleftrightarrow> score c > 0.6"
    using scenarioA_present by auto
  from s have "score c = 1/8" by (simp add: scenarioA_element_accuracy)
  with p have "c = \<lparr>score = 1/8, passed = False\<rparr>" by simp
  with c scenarioA_present show ?thesis by simp
qed

text \<open>
  Claim C7 as stated fails: in scenario A the goals are the only element present, and the
  score of the check differs from the overlap with that element.
\<close>

theorem context_accuracy_counterexample:
  "present_elements scenarioA_context = [VGoals [''Implement secure user authentication'']]
   \<and> score (projr (verifyContextAccuracy example_env scenarioA_output (Some scenarioA_context)))
       \<noteq> calculateContextElementAccuracy example_env scenarioA_output
            (VGoals [''Implement secure user authentication''])"
  by (simp add: scenarioA_present verifyContextAccuracy_eq scenarioA_element_accuracy)

section \<open>Complexity zero\<close>

lemma expected_score_strict_mono:
  assumes "x < y"
  shows "calculateExpectedScore r y < calculateExpectedScore r x"
proof -
  have "- (r - (1500 + (x - 0.5) * 800)) / 400 < - (r - (1500 + (y - 0.5) * 800)) / 400"
    using assms by simp
  then have "(10::real) powr (- (r - (1500 + (x - 0.5) * 800)) / 400)
           < 10 powr (- (r - (1500 + (y - 0.5) * 800)) / 400)"
    by simp
  moreover have "0 < (10::real) powr (- (r - (1500 + (x - 0.5) * 800)) / 400)"
    by simp
  ultimately show ?thesis
    unfolding calculateExpectedScore_def Let_def
    by (intro divide_strict_left_mono) (simp_all add: add_pos_pos)
qed




lemma quality_score_of_checks:
  "score (verifyQualityStandards out) =
     (of_bool (hasDescription (qualityChecksOf out)) + of_bool (hasValidType (qualityChecksOf out))
      + of_bool (hasComplexityEstimate (qualityChecksOf out))
      + of_bool (hasProperStructure (qualityChecksOf out))) / 4"
  by (simp add: verifyQualityStandards_def Let_def)

lemma qualityChecksOf_complexity:
  "hasDescription (qualityChecksOf (out\<lparr>t_complexity := x\<rparr>)) = hasDescription (qualityChecksOf out)"
  "hasValidType (qualityChecksOf (out\<lparr>t_complexity := x\<rparr>)) = hasValidType (qualityChecksOf out)"
  "hasProperStructure (qualityChecksOf (out\<lparr>t_complexity := x\<rparr>))
     = hasProperStructure (qualityChecksOf out)"
  "hasComplexityEstimate (qualityChecksOf (out\<lparr>t_complexity := x\<rparr>))
     = (case x of None \<Rightarrow> False | Some c \<Rightarrow> c \<noteq> 0 \<and> c \<ge> 0 \<and> c \<le> 1)"
  by (simp_all add: qualityChecksOf_def validateOutputStructure_def)

lemma actual_score_ignores_complexity:
  "calculateActualScore (tr\<lparr>tr_complexity := x\<rparr>) compliance = calculateActualScore tr compliance"
  by (simp add: calculateActualScore_def split del: if_split cong: if_cong)

text \<open>
  Claim C10.  A complexity of exactly 0 is treated as an absent complexity: the
  \<open>hasComplexityEstimate\<close> sub-check of the quality-standards check is false and the
  check is the one of an output without complexity, its score a quarter below that of the
  same output with a complexity in (0, 1]; \<open>updateAgentRating\<close> takes 0.5 for the
  complexity of the task, so its expected score is that of complexity 0.5, which is
  smaller than that of complexity 0, and the update it returns is the one for a task
  result without complexity.
\<close>

theorem zero_complexity_is_absent:
  "\<not> hasComplexityEstimate (qualityChecksOf (out\<lparr>t_complexity := Some 0\<rparr>))
   \<and> verifyQualityStandards (out\<lparr>t_complexity := Some 0\<rparr>)
       = verifyQualityStandards (out\<lparr>t_complexity := None\<rparr>)
   \<and> (\<forall>x. 0 < x \<and> x \<le> 1 \<longrightarrow>
         score (verifyQualityStandards (out\<lparr>t_complexity := Some 0\<rparr>))
           = score (verifyQualityStandards (out\<lparr>t_complexity := Some x\<rparr>)) - 1/4)
   \<and> taskComplexityOf (tr\<lparr>tr_complexity := Some 0\<rparr>) = 0.5
   \<and> expectedScore (fst (updateAgentRating E R agentId (tr\<lparr>tr_complexity := Some 0\<rparr>) compliance))
       = calculateExpectedScore (currentRatingOf R agentId) 0.5
   \<and> fst (updateAgentRating E R agentId (tr\<lparr>tr_complexity := Some 0\<rparr>) compliance)
       = fst (updateAgentRating E R agentId (tr\<lparr>tr_complexity := None\<rparr>) compliance)
   \<and> calculateExpectedScore (currentRatingOf R agentId) 0.5
       < calculateExpectedScore (currentRatingOf R agentId) 0"
proof -
  have a: "\<not> hasComplexityEstimate (qualityChecksOf (out\<lparr>t_complexity := Some 0\<rparr>))"
    by (simp add: qualityChecksOf_complexity)
  have b: "verifyQualityStandards (out\<lparr>t_complexity := Some 0\<rparr>)
       = verifyQualityStandards (out\<lparr>t_complexity := None\<rparr>)"
    by (simp add: verifyQualityStandards_def qualityChecksOf_complexity Let_def)
  have c: "\<forall>x. 0 < x \<and> x \<le> 1 \<longrightarrow>
         score (verifyQualityStandards (out\<lparr>t_complexity := Some 0\<rparr>))
           = score (verifyQualityStandards (out\<lparr>t_complexity := Some x\<rparr>)) - 1/4"
    by (simp add: quality_score_of_checks qualityChecksOf_complexity add_divide_distrib)
  have d: "taskComplexityOf (tr\<lparr>tr_complexity := Some 0\<rparr>) = 0.5"
    by (simp add: taskComplexityOf_def)
  have d': "taskComplexityOf (tr\<lparr>tr_complexity := None\<rparr>) = 0.5"
    by (simp add: taskComplexityOf_def)
  have e: "expectedScore (fst (updateAgentRating E R agentId (tr\<lparr>tr_complexity := Some 0\<rparr>) compliance))
       = calculateExpectedScore (currentRatingOf R agentId) 0.5"
    unfolding updateAgentRating_def Let_def fst_conv d by simp
  have f: "fst (updateAgentRating E R agentId (tr\<lparr>tr_complexity := Some 0\<rparr>) compliance)
       = fst (updateAgentRating E R agentId (tr\<lparr>tr_complexity := None\<rparr>) compliance)"
    unfolding updateAgentRating_def Let_def fst_conv d d' actual_score_ignores_complexity ..
  have g: "calculateExpectedScore (currentRatingOf R agentId) 0.5
       < calculateExpectedScore (currentRatingOf R agentId) 0"
    by (rule expected_score_strict_mono) simp
  from a b c d e f g show ?thesis by blast
qed

theorem zero_complexity_is_absent_witness:
  "(0::real) < 0.7 \<and> (0.7::real) \<le> 1
   \<and> score (verifyQualityStandards (scenarioA_output\<lparr>t_complexity := Some 0\<rparr>)) = 3/4
   \<and> score (verifyQualityStandards (scenarioA_output\<lparr>t_complexity := Some 0.7\<rparr>)) = 1"
proof -
  have one: "score (verifyQualityStandards (scenarioA_output\<lparr>t_complexity := Some 0.7\<rparr>)) = 1"
    by (simp add: quality_score_of_checks qualityChecksOf_complexity)
       (simp add: qualityChecksOf_def validateOutputStructure_def scenarioA_output_def)
  have rng: "(0::real) < 0.7 \<and> (0.7::real) \<le> 1" by simp
  from zero_complexity_is_absent [of scenarioA_output sample_taskResult example_env
            newEloSystem "''agent-1''" "\<lparr>overallCompliance = None, factors = None\<rparr>"]
  have "\<forall>x. 0 < x \<and> x \<le> 1 \<longrightarrow>
         score (verifyQualityStandards (scenarioA_output\<lparr>t_complexity := Some 0\<rparr>))
           = score (verifyQualityStandards (scenarioA_output\<lparr>t_complexity := Some x\<rparr>)) - 1/4"
    by blast
  with rng have "score (verifyQualityStandards (scenarioA_output\<lparr>t_complexity := Some 0\<rparr>))
           = score (verifyQualityStandards (scenarioA_output\<lparr>t_complexity := Some 0.7\<rparr>)) - 1/4"
    by blast
  with one have "score (verifyQualityStandards (scenarioA_output\<lparr>t_complexity := Some 0\<rparr>)) = 3/4"
    by simp
  with one rng show ?thesis by blast
qed

section \<open>Rollback history\<close>

lemma layer_after_rollback:
  "rollbackHistory (layer_after E L r)
     = (if verified r then rollbackHistory L else rollbackHistory L @ [r])"
  by (simp add: layer_after_def layer_recorded_def persistVerificationMemory_def
        storeSuccessPattern_def Let_def)

lemma layer_after_file:
  "write_ok E \<Longrightarrow>
   \<exists>m. memoryFile (layer_after E L r) = Some m
     \<and> m_rollbackHistory m = slice_last 50 (rollbackHistory (layer_after E L r))"
  by (simp add: layer_after_def persistVerificationMemory_def)

lemma enforce_Inr:
  assumes "enforceVerification E L out sc = Inr (r, L')"
  shows "\<exists>ctx. sc = Some ctx \<and> r = verification_result E L out ctx \<and> L' = layer_after E L r"
proof (cases sc)
  case None
  with assms show ?thesis by (simp add: enforce_None)
next
  case (Some ctx)
  with assms show ?thesis by (auto simp add: enforce_Some)
qed

text \<open>
  Claim C9, as amended.  A verification appends its result to the rollback history in
  memory when it failed and leaves that list as it is when it passed; the list in memory
  is not cut.  When the write of the memory file succeeds, the rollback history in the
  file is the list in memory without all but its last 50 entries, the oldest dropped
  first, and so holds at most 50 entries.
\<close>

theorem rollback_history_capped_on_file:
  assumes "enforceVerification E L out sc = Inr (r, L')"
  shows "rollbackHistory L' = (if verified r then rollbackHistory L else rollbackHistory L @ [r])
       \<and> (write_ok E \<longrightarrow>
            (\<exists>m. memoryFile L' = Some m
               \<and> m_rollbackHistory m
                   = drop (length (rollbackHistory L') - 50) (rollbackHistory L')
               \<and> length (m_rollbackHistory m) \<le> 50))"
proof -
  from enforce_Inr [OF assms] have L': "L' = layer_after E L r" by blast
  have "rollbackHistory L' = (if verified r then rollbackHistory L else rollbackHistory L @ [r])"
    unfolding L' by (rule layer_after_rollback)
  moreover have "write_ok E \<longrightarrow>
            (\<exists>m. memoryFile L' = Some m
               \<and> m_rollbackHistory m
                   = drop (length (rollbackHistory L') - 50) (rollbackHistory L')
               \<and> length (m_rollbackHistory m) \<le> 50)"
    unfolding L' using layer_after_file [of E L r] by (auto simp add: slice_last_def)
  ultimately show ?thesis by blast
qed

lemma extractKeywords_empty: "extractKeywords [] = []"
  by code_simp

lemma sample_recent_none:
  "filter (\<lambda>v. verified v \<and> P v) (map snd (verificationMemory (sample_layer m k 0))) = []"
  by (simp add: sample_layer_def sample_entry_def sample_result_def filter_map comp_def)

lemma bare_present: "present_elements bare_context = []"
  by (simp add: present_elements_def contextElements_def context_element_def bare_context_def
        map_filter_simps truthy_data_def)

lemma bare_checks:
  "verification_checks example_env (sample_layer m k 0) bare_output bare_context =
     \<lparr>sprintAlignment = \<lparr>score = 1/2, passed = False\<rparr>,
      qualityStandardsCheck = \<lparr>score = 0, passed = False\<rparr>,
      crossAgentConsistency = \<lparr>score = 1, passed = True\<rparr>,
      historicalCompliance = \<lparr>score = 4/5, passed = True\<rparr>,
      contextAccuracy = \<lparr>score = 0, passed = False\<rparr>\<rparr>"
proof -
  have sa: "verifySprintAlignment bare_output (Some bare_context) = Inr \<lparr>score = 1/2, passed = False\<rparr>"
    by (simp add: verifySprintAlignment_def bare_output_def bare_context_def
          description_or_empty_def extractKeywords_empty calculateKeywordAlignment_def)
  have qs: "verifyQualityStandards bare_output = \<lparr>score = 0, passed = False\<rparr>"
    by (simp add: verifyQualityStandards_def qualityChecksOf_def validateOutputStructure_def
          bare_output_def)
  have cc: "verifyCrossAgentConsistency example_env (sample_layer m k 0) bare_output
              = \<lparr>score = 1, passed = True\<rparr>"
    by (simp add: verifyCrossAgentConsistency_def sample_recent_none)
  have hc: "verifyHistoricalCompliance (sample_layer m k 0) bare_output = \<lparr>score = 4/5, passed = True\<rparr>"
    by (simp add: verifyHistoricalCompliance_def bare_output_def)
  have ca: "verifyContextAccuracy example_env bare_output (Some bare_context)
              = Inr \<lparr>score = 0, passed = False\<rparr>"
    by (simp add: verifyContextAccuracy_eq bare_present)
  show ?thesis
    by (simp add: verification_checks_def sa qs cc hc ca)
qed

lemma sample_layer_mode: "mode (sample_layer m k n) = m"
  by (simp add: sample_layer_def)

lemma bare_not_verified:
  "\<not> verified (verification_result example_env (sample_layer ''moderate'' k 0) bare_output bare_context)"
  by (simp add: verification_result_def bare_checks calculateVerificationScore_mean
        sample_layer_mode thresholds_values)

lemma sample_rollback_length: "length (rollbackHistory (sample_layer m k n)) = k"
  by (simp add: sample_layer_def)

theorem rollback_history_capped_on_file_witness:
  "enforceVerification example_env (sample_layer ''moderate'' 50 0) bare_output (Some bare_context)
     = Inr (verification_result example_env (sample_layer ''moderate'' 50 0) bare_output bare_context,
            layer_after example_env (sample_layer ''moderate'' 50 0)
              (verification_result example_env (sample_layer ''moderate'' 50 0) bare_output
                 bare_context))
   \<and> write_ok example_env
   \<and> (\<exists>m. memoryFile (layer_after example_env (sample_layer ''moderate'' 50 0)
              (verification_result example_env (sample_layer ''moderate'' 50 0) bare_output
                 bare_context)) = Some m
         \<and> length (m_rollbackHistory m) \<le> 50)"
proof -
  have w: "write_ok example_env" by (simp add: example_env_def)
  have e: "enforceVerification example_env (sample_layer ''moderate'' 50 0) bare_output (Some bare_context)
     = Inr (verification_result example_env (sample_layer ''moderate'' 50 0) bare_output bare_context,
            layer_after example_env (sample_layer ''moderate'' 50 0)
              (verification_result example_env (sample_layer ''moderate'' 50 0) bare_output
                 bare_context))"
    by (rule enforce_Some)
  from rollback_history_capped_on_file [OF e] w e show ?thesis by blast
qed

text \<open>
  Claim C9 as stated fails: a failed verification on a layer whose rollback history holds
  50 entries leaves 51 entries in the list.
\<close>

theorem rollback_history_counterexample:
  "length (rollbackHistory (snd (projr
      (enforceVerification example_env (sample_layer ''moderate'' 50 0) bare_output
         (Some bare_context))))) = 51"
  by (simp add: enforce_Some layer_after_rollback bare_not_verified sample_rollback_length)

section \<open>Adaptive thresholds\<close>

lemma sample_stats:
  "totalVerifications (getStats (sample_layer m k n)) = k + n"
  "successfulVerifications (getStats (sample_layer m k n)) = n"
  "successRate (getStats (sample_layer m k n))
     = (if k + n > 0 then real n / real (k + n) else 0)"
  by (simp_all add: getStats_def sample_layer_def sample_entry_def sample_result_def
        filter_map comp_def Let_def)

lemma step_values:
  "tighten ''dev'' = ''moderate''" "tighten ''moderate'' = ''strict''"
  "tighten ''strict'' = ''strict''"
  "loosen ''strict'' = ''moderate''" "loosen ''moderate'' = ''dev''" "loosen ''dev'' = ''dev''"
  by (simp_all add: tighten_def loosen_def)

lemma adjust_small: 
  "totalVerifications (getStats (verificationLayer G)) \<le> 50 \<Longrightarrow> adjustAdaptiveThresholds G = G"
  by (simp add: adjustAdaptiveThresholds_def Let_def)

lemma adjust_large:
  assumes "totalVerifications (getStats (verificationLayer G)) > 50"
  shows "adjustAdaptiveThresholds G =
           G\<lparr>verificationLayer := (verificationLayer G)
               \<lparr>mode := (if successRate (getStats (verificationLayer G)) > 0.9
                          then tighten (mode (verificationLayer G))
                          else if successRate (getStats (verificationLayer G)) < 0.6
                          then loosen (mode (verificationLayer G))
                          else mode (verificationLayer G))\<rparr>\<rparr>"
  using assms by (simp add: adjustAdaptiveThresholds_def Let_def tighten_def loosen_def)

text \<open>
  Claim C5, as amended.  When the adaptive-threshold check runs on more than 50 remembered
  verifications, a success rate above 0.9 tightens the mode by one step (dev to moderate,
  moderate to strict, strict stays), a success rate below 0.6 loosens it by one step
  (strict to moderate, moderate to dev, dev stays), any other rate leaves it, and nothing
  else in the engine changes.  The witness is scenario D: 60 verifications, the last 57 of
  them verified, success rate 0.95, take the mode from dev to moderate.
\<close>

theorem adaptive_thresholds_one_step:
  assumes "totalVerifications (getStats (verificationLayer G)) > 50"
  shows "adjustAdaptiveThresholds G =
           G\<lparr>verificationLayer := (verificationLayer G)
               \<lparr>mode := (if successRate (getStats (verificationLayer G)) > 0.9
                          then tighten (mode (verificationLayer G))
                          else if successRate (getStats (verificationLayer G)) < 0.6
                          then loosen (mode (verificationLayer G))
                          else mode (verificationLayer G))\<rparr>\<rparr>
       \<and> tighten ''dev'' = ''moderate'' \<and> tighten ''moderate'' = ''strict''
       \<and> tighten ''strict'' = ''strict''
       \<and> loosen ''strict'' = ''moderate'' \<and> loosen ''moderate'' = ''dev''
       \<and> loosen ''dev'' = ''dev''"
  using adjust_large [OF assms] step_values by blast

theorem adaptive_thresholds_one_step_witness:
  "totalVerifications (getStats (verificationLayer
      ((newEngine ''dev'')\<lparr>verificationLayer := sample_layer ''dev'' 3 57\<rparr>))) > 50
   \<and> successRate (getStats (sample_layer ''dev'' 3 57)) = 95/100
   \<and> mode (verificationLayer (adjustAdaptiveThresholds
        ((newEngine ''dev'')\<lparr>verificationLayer := sample_layer ''dev'' 3 57\<rparr>))) = ''moderate''"
proof -
  let ?G = "(newEngine ''dev'')\<lparr>verificationLayer := sample_layer ''dev'' 3 57\<rparr>"
  have t: "totalVerifications (getStats (verificationLayer ?G)) > 50"
    by (simp add: sample_stats)
  have r: "successRate (getStats (sample_layer ''dev'' 3 57)) = 95/100"
    by (simp add: sample_stats)
  have m: "mode (sample_layer ''dev'' 3 57) = ''dev''"
    by (simp add: sample_layer_def)
  from adaptive_thresholds_one_step [OF t]
  have "adjustAdaptiveThresholds ?G =
          ?G\<lparr>verificationLayer := (verificationLayer ?G)
               \<lparr>mode := (if successRate (getStats (verificationLayer ?G)) > 0.9
                          then tighten (mode (verificationLayer ?G))
                          else if successRate (getStats (verificationLayer ?G)) < 0.6
                          then loosen (mode (verificationLayer ?G))
                          else mode (verificationLayer ?G))\<rparr>\<rparr>"
    by blast
  then have "mode (verificationLayer (adjustAdaptiveThresholds ?G)) = ''moderate''"
    by (simp add: r m step_values)
  with t r show ?thesis by blast
qed

text \<open>
  Claim C5 as stated fails: on exactly 50 remembered verifications, all verified, the mode
  stays dev.
\<close>

theorem adaptive_thresholds_counterexample:
  "totalVerifications (getStats (sample_layer ''dev'' 0 50)) = 50
   \<and> successRate (getStats (sample_layer ''dev'' 0 50)) = 1
   \<and> mode (verificationLayer (adjustAdaptiveThresholds
        ((newEngine ''dev'')\<lparr>verificationLayer := sample_layer ''dev'' 0 50\<rparr>))) = ''dev''"
proof -
  let ?G = "(newEngine ''dev'')\<lparr>verificationLayer := sample_layer ''dev'' 0 50\<rparr>"
  have t: "totalVerifications (getStats (sample_layer ''dev'' 0 50)) = 50"
    and r: "successRate (getStats (sample_layer ''dev'' 0 50)) = 1"
    by (simp_all add: sample_stats)
  have "adjustAdaptiveThresholds ?G = ?G"
    by (rule adjust_small) (simp add: t)
  then have "mode (verificationLayer (adjustAdaptiveThresholds ?G)) = ''dev''"
    by (simp add: sample_layer_def)
  with t r show ?thesis by blast
qed

section \<open>The critic-fixer loop\<close>

lemma foldl_add_sum_list:
  "foldl (\<lambda>sum r. sum + f r) a xs = a + sum_list (map f xs)" for a :: real
  by (induction xs arbitrary: a) simp_all

lemma length_criticPhase: "length (criticPhase E sols c) = length sols"
  by (simp add: criticPhase_def)

lemma length_fixed_once: "length (fixed_once E c sols) = length sols"
  by (simp add: fixed_once_def fixerPhase_def length_criticPhase)

lemma cycle_loop_done: "cycle_loop E c sols 3 imps = (sols, 3, imps)"
  by (simp add: cycle_loop.simps maxCycles_def)

lemma cycle_loop_step0:
  "cycle_loop E c sols 0 imps =
     (if significantImprovement (cycle_improvement E c sols)
      then cycle_loop E c (fixed_once E c sols) 1 (imps @ [cycle_improvement E c sols])
      else (sols, 1, imps @ [cycle_improvement E c sols]))"
  by (subst cycle_loop.simps)
     (simp add: maxCycles_def Let_def fixed_once_def cycle_improvement_def)

lemma cycle_loop_step1:
  "cycle_loop E c sols 1 imps =
     (if significantImprovement (cycle_improvement E c sols)
      then cycle_loop E c (fixed_once E c sols) 2 (imps @ [cycle_improvement E c sols])
      else (sols, 2, imps @ [cycle_improvement E c sols]))"
  by (subst cycle_loop.simps)
     (simp add: maxCycles_def Let_def fixed_once_def cycle_improvement_def numeral_2_eq_2)

lemma cycle_loop_step2:
  "cycle_loop E c sols 2 imps =
     (if significantImprovement (cycle_improvement E c sols)
      then cycle_loop E c (fixed_once E c sols) 3 (imps @ [cycle_improvement E c sols])
      else (sols, 3, imps @ [cycle_improvement E c sols]))"
  by (subst cycle_loop.simps)
     (simp add: maxCycles_def Let_def fixed_once_def cycle_improvement_def)

lemma significant_iff:
  "significantImprovement (cycle_improvement E c sols)
     \<longleftrightarrow> avgImprovement (cycle_improvement E c sols) > 0.1"
  by (simp add: cycle_improvement_def calculateImprovement_def Let_def improvementThreshold_def)

lemma cycle_loop_from_start:
  "cycle_loop E c sols 0 [] =
     (if \<not> significantImprovement (cycle_improvement E c sols)
      then (sols, 1, [cycle_improvement E c sols])
      else if \<not> significantImprovement (cycle_improvement E c (fixed_once E c sols))
      then (fixed_once E c sols, 2,
            [cycle_improvement E c sols, cycle_improvement E c (fixed_once E c sols)])
      else (if significantImprovement
                 (cycle_improvement E c (fixed_once E c (fixed_once E c sols)))
            then fixed_once E c (fixed_once E c (fixed_once E c sols))
            else fixed_once E c (fixed_once E c sols),
            3,
            [cycle_improvement E c sols, cycle_improvement E c (fixed_once E c sols),
             cycle_improvement E c (fixed_once E c (fixed_once E c sols))]))"
  by (simp only: cycle_loop_step0 cycle_loop_step1 cycle_loop_step2 cycle_loop_done
        append_Nil append_Cons if_not_P if_P split: if_split) simp

lemma evaluateAndImprove_fields:
  "finalSolutions (evaluateAndImprove E sols c) = fst (cycle_loop E c sols 0 [])"
  "cycles (evaluateAndImprove E sols c) = fst (snd (cycle_loop E c sols 0 []))"
  "improvements (evaluateAndImprove E sols c) = snd (snd (cycle_loop E c sols 0 []))"
  by (simp_all add: evaluateAndImprove_def Let_def split: prod.splits)

lemma length_finalSolutions:
  "length (finalSolutions (evaluateAndImprove E sols c)) = length sols"
  by (simp add: evaluateAndImprove_fields cycle_loop_from_start Let_def length_fixed_once)

lemma avgImprovement_means:
  "avgImprovement (cycle_improvement E c sols) =
     mean (map fx_improvedScore (fixerPhase E (criticPhase E sols c) c))
       - mean (map cr_score (criticPhase E sols c))"
  by (simp add: cycle_improvement_def calculateImprovement_def Let_def mean_def
        foldl_add_sum_list)

lemma upt_small: "[0..<3] = [0, 1, 2]" "[0..<2] = [0, 1]" "[0..<1] = [0]"
  by (simp_all add: upt_rec)

lemma cycle_stats_simps:
  "cycle_stats E c sols 0 = cycle_improvement E c sols"
  "cycle_stats E c sols (Suc 0) = cycle_improvement E c (fixed_once E c sols)"
  "cycle_stats E c sols 2 = cycle_improvement E c (fixed_once E c (fixed_once E c sols))"
  by (simp_all add: cycle_stats_def numeral_2_eq_2)

text \<open>
  Claim C4.  On a non-empty list of solutions \<open>evaluateAndImprove\<close> runs at least one and
  at most three cycles.  The improvement recorded for cycle \<open>i\<close> is the one measured on the
  solutions that the cycles before it handed on, its \<open>avgImprovement\<close> being the mean of
  the improved scores minus the mean of the original scores of that cycle.  Every cycle
  but the last had an \<open>avgImprovement\<close> above 0.1, and a run of fewer than three cycles
  ended on a cycle whose \<open>avgImprovement\<close> was at most 0.1: the loop stops in the first
  such cycle.
\<close>

theorem critic_fixer_cycles:
  assumes "sols \<noteq> []"
  shows "1 \<le> cycles (evaluateAndImprove E sols c)
       \<and> cycles (evaluateAndImprove E sols c) \<le> 3
       \<and> improvements (evaluateAndImprove E sols c)
           = map (cycle_stats E c sols) [0 ..< cycles (evaluateAndImprove E sols c)]
       \<and> (\<forall>imp \<in> set (butlast (improvements (evaluateAndImprove E sols c))).
             avgImprovement imp > 0.1)
       \<and> (cycles (evaluateAndImprove E sols c) < 3 \<longrightarrow>
             avgImprovement (last (improvements (evaluateAndImprove E sols c))) \<le> 0.1)
       \<and> (\<forall>i. avgImprovement (cycle_stats E c sols i)
             = mean (map fx_improvedScore
                       (fixerPhase E (criticPhase E ((fixed_once E c ^^ i) sols) c) c))
               - mean (map cr_score (criticPhase E ((fixed_once E c ^^ i) sols) c)))"
proof -
  have "\<forall>i. avgImprovement (cycle_stats E c sols i)
             = mean (map fx_improvedScore
                       (fixerPhase E (criticPhase E ((fixed_once E c ^^ i) sols) c) c))
               - mean (map cr_score (criticPhase E ((fixed_once E c ^^ i) sols) c))"
    by (simp add: cycle_stats_def avgImprovement_means)
  then show ?thesis
    by (simp add: evaluateAndImprove_fields cycle_loop_from_start upt_small cycle_stats_simps
          significant_iff)
qed

theorem critic_fixer_cycles_witness:
  "generateAlternativeSolutions scenarioA_output scenarioA_context \<noteq> []
   \<and> cycles (evaluateAndImprove example_env
        (generateAlternativeSolutions scenarioA_output scenarioA_context)
        \<lparr>sprintGoals = Some (goals_or_empty scenarioA_context)\<rparr>) \<le> 3"
proof -
  have ne: "generateAlternativeSolutions scenarioA_output scenarioA_context \<noteq> []"
    by (simp add: generateAlternativeSolutions_def Let_def)
  from critic_fixer_cycles [OF ne] ne show ?thesis by blast
qed

section \<open>The pipeline\<close>

lemma try_block_None:
  "try_block E G a td None pr = Inl (null_read ''goals'', pr, G, td)"
  by (simp add: try_block_def enforce_None)

lemma try_block_blocked:
  assumes "\<not> verified (verification_result E (verificationLayer G) td ctx)"
  shows "\<exists>pr' G' sc cs sg. try_block E G a td (Some ctx) pr = Inr (pr', G', td)
            \<and> pr_finalResult pr' = Some (Blocked ''verification_failed'' sc cs sg)"
  using assms by (simp add: try_block_def enforce_Some Let_def)

lemma try_block_approved:
  assumes v: "verified (verification_result E (verificationLayer G) td ctx)"
  shows "case calculateSprintCompliance E (task_after_critic_fixer E G td ctx) ctx of
           Inl err \<Rightarrow>
             (\<exists>pr' G'. try_block E G a td (Some ctx) pr
                          = Inl (err, pr', G', task_after_critic_fixer E G td ctx)
                 \<and> eloSystem G' = eloSystem G \<and> pr_finalResult pr' = pr_finalResult pr)
         | Inr c \<Rightarrow>
             (\<exists>pr' G' vs er pc oc en. try_block E G a td (Some ctx) pr
                          = Inr (pr', G', task_after_critic_fixer E G td ctx)
                 \<and> pr_finalResult pr' = Some (Approved vs er pc oc en))"
proof -
  consider (off) "\<not> continuousLearning G"
    | (none) "continuousLearning G" "t_solutions td = None"
    | (few) sols where "continuousLearning G" "t_solutions td = Some sols" "\<not> length sols > 1"
    | (runs) sols where "continuousLearning G" "t_solutions td = Some sols" "length sols > 1"
    by (cases "t_solutions td") auto
  then show ?thesis
  proof cases
    case off
    then have t: "task_after_critic_fixer E G td ctx = td"
      by (simp add: task_after_critic_fixer_def runs_critic_fixer_def)
    show ?thesis
      unfolding t using v off
      by (auto simp add: try_block_def enforce_Some Let_def split: sum.splits)
  next
    case none
    then have t: "task_after_critic_fixer E G td ctx = td"
      by (simp add: task_after_critic_fixer_def runs_critic_fixer_def)
    show ?thesis
      unfolding t using v none
      by (auto simp add: try_block_def enforce_Some Let_def split: sum.splits)
  next
    case (few sols)
    then have t: "task_after_critic_fixer E G td ctx = td"
      by (simp add: task_after_critic_fixer_def runs_critic_fixer_def)
    show ?thesis
      unfolding t using v few
      by (auto simp add: try_block_def enforce_Some Let_def split: sum.splits)
  next
    case (runs sols)
    have "length (finalSolutions (evaluateAndImprove E sols
                    \<lparr>sprintGoals = Some (goals_or_empty ctx)\<rparr>)) = length sols"
      by (rule length_finalSolutions)
    with runs(3) have ne: "finalSolutions (evaluateAndImprove E sols
                    \<lparr>sprintGoals = Some (goals_or_empty ctx)\<rparr>) \<noteq> []"
      by auto
    from runs have t: "task_after_critic_fixer E G td ctx =
             td\<lparr>t_solutions := Some (finalSolutions (evaluateAndImprove E sols
                                      \<lparr>sprintGoals = Some (goals_or_empty ctx)\<rparr>)),
                t_enhanced := True,
                t_improvementCycles := Some (cycles (evaluateAndImprove E sols
                                      \<lparr>sprintGoals = Some (goals_or_empty ctx)\<rparr>))\<rparr>"
      by (simp add: task_after_critic_fixer_def runs_critic_fixer_def improved_task_def)
    show ?thesis
      unfolding t using v runs ne
      by (auto simp add: try_block_def enforce_Some Let_def split: sum.splits)
  qed
qed

lemma processAgentTask_Some:
  "processAgentTask E G a (Some td) sc =
     (case try_block E (counted G) a td sc (initial_result E a td) of
        Inr (pr, G', td') \<Rightarrow> Returned pr G' td'
      | Inl (err, pr, G', td') \<Rightarrow>
          Returned (pr\<lparr>pr_finalResult := Some (ErrorResult (message err))\<rparr>) G' td')"
  unfolding processAgentTask_def counted_def initial_result_def Let_def by simp

lemma processAgentTask_null_task:
  "processAgentTask E G a None sc = Threw (null_read ''id'') (counted G)"
  by (simp add: processAgentTask_def counted_def Let_def)

lemma counted_frame:
  "verificationLayer (counted G) = verificationLayer G"
  "eloSystem (counted G) = eloSystem G"
  "continuousLearning (counted G) = continuousLearning G"
  by (simp_all add: counted_def)

lemma task_after_critic_fixer_counted:
  "task_after_critic_fixer E (counted G) td ctx = task_after_critic_fixer E G td ctx"
  by (simp add: task_after_critic_fixer_def runs_critic_fixer_def counted_frame)

lemma initial_result_final: "pr_finalResult (initial_result E a td) = None"
  by (simp add: initial_result_def)

text \<open>The four ways through the pipeline.\<close>

lemma pipeline_null_context:
  "processAgentTask E G a (Some td) None =
     Returned ((initial_result E a td)
                 \<lparr>pr_finalResult := Some (ErrorResult (message (null_read ''goals'')))\<rparr>)
       (counted G) td"
  "phase_error E G a td None = Some (null_read ''goals'')"
  by (simp_all add: processAgentTask_Some phase_error_def try_block_None)

lemma pipeline_blocked:
  assumes "\<not> verified (verification_result E (verificationLayer G) td ctx)"
  shows "\<exists>pr G' sc cs sg. processAgentTask E G a (Some td) (Some ctx) = Returned pr G' td
            \<and> pr_finalResult pr = Some (Blocked ''verification_failed'' sc cs sg)"
    and "phase_error E G a td (Some ctx) = None"
proof -
  from assms have "\<not> verified (verification_result E (verificationLayer (counted G)) td ctx)"
    by (simp add: counted_frame)
  from try_block_blocked [OF this, of a "initial_result E a td"]
  show "\<exists>pr G' sc cs sg. processAgentTask E G a (Some td) (Some ctx) = Returned pr G' td
            \<and> pr_finalResult pr = Some (Blocked ''verification_failed'' sc cs sg)"
    and "phase_error E G a td (Some ctx) = None"
    by (auto simp add: processAgentTask_Some phase_error_def)
qed

lemma pipeline_approved:
  assumes "verified (verification_result E (verificationLayer G) td ctx)"
    and "calculateSprintCompliance E (task_after_critic_fixer E G td ctx) ctx = Inr c"
  shows "\<exists>pr G' vs er pc oc en. processAgentTask E G a (Some td) (Some ctx)
             = Returned pr G' (task_after_critic_fixer E G td ctx)
            \<and> pr_finalResult pr = Some (Approved vs er pc oc en)"
    and "phase_error E G a td (Some ctx) = None"
proof -
  from assms(1) have "verified (verification_result E (verificationLayer (counted G)) td ctx)"
    by (simp add: counted_frame)
  from try_block_approved [OF this, of a "initial_result E a td"] assms(2)
  show "\<exists>pr G' vs er pc oc en. processAgentTask E G a (Some td) (Some ctx)
             = Returned pr G' (task_after_critic_fixer E G td ctx)
            \<and> pr_finalResult pr = Some (Approved vs er pc oc en)"
    and "phase_error E G a td (Some ctx) = None"
    by (auto simp add: processAgentTask_Some phase_error_def task_after_critic_fixer_counted)
qed

lemma pipeline_late_error:
  assumes "verified (verification_result E (verificationLayer G) td ctx)"
    and "calculateSprintCompliance E (task_after_critic_fixer E G td ctx) ctx = Inl err"
  shows "\<exists>pr G'. processAgentTask E G a (Some td) (Some ctx)
             = Returned pr G' (task_after_critic_fixer E G td ctx)
            \<and> pr_finalResult pr = Some (ErrorResult (message err))
            \<and> eloSystem G' = eloSystem G"
    and "phase_error E G a td (Some ctx) = Some err"
proof -
  from assms(1) have "verified (verification_result E (verificationLayer (counted G)) td ctx)"
    by (simp add: counted_frame)
  from try_block_approved [OF this, of a "initial_result E a td"] assms(2)
  show "\<exists>pr G'. processAgentTask E G a (Some td) (Some ctx)
             = Returned pr G' (task_after_critic_fixer E G td ctx)
            \<and> pr_finalResult pr = Some (ErrorResult (message err))
            \<and> eloSystem G' = eloSystem G"
    and "phase_error E G a td (Some ctx) = Some err"
    by (auto simp add: processAgentTask_Some phase_error_def task_after_critic_fixer_counted
          counted_frame)
qed

lemma processAgentTask_task:
  assumes "processAgentTask E G a (Some td) sc = Returned pr G' td'"
    and "pr_finalResult pr = Some fr"
  shows "(status fr = ''blocked'' \<longrightarrow> td' = td)
       \<and> (status fr = ''approved'' \<and> \<not> runs_critic_fixer G td \<longrightarrow> td' = td)
       \<and> (\<forall>sols ctx. status fr = ''approved'' \<and> runs_critic_fixer G td
              \<and> t_solutions td = Some sols \<and> sc = Some ctx
              \<longrightarrow> td' = improved_task E td sols ctx)"
proof (cases sc)
  case None
  with assms show ?thesis
    by (auto simp add: pipeline_null_context)
next
  case (Some ctx)
  show ?thesis
  proof (cases "verified (verification_result E (verificationLayer G) td ctx)")
    case False
    from pipeline_blocked(1) [OF False, of a] assms show ?thesis
      unfolding Some by auto
  next
    case True
    show ?thesis
    proof (cases "calculateSprintCompliance E (task_after_critic_fixer E G td ctx) ctx")
      case (Inl err)
      from pipeline_late_error(1) [OF True Inl, of a] assms show ?thesis
        unfolding Some by auto
    next
      case (Inr c)
      from pipeline_approved(1) [OF True Inr, of a] assms show ?thesis
        unfolding Some by (auto simp add: task_after_critic_fixer_def)
    qed
  qed
qed

section \<open>Runs of the pipeline\<close>

lemma compliance_without_constraints:
  "constraints ctx = None \<Longrightarrow> \<exists>c. calculateSprintCompliance E td ctx = Inr c"
  by (simp add: calculateSprintCompliance_def Let_def)

lemma new_layer:
  "verificationLayer (newEngine m) = newVerificationLayer m"
  "verificationLayer (rated_engine m) = newVerificationLayer m"
  "mode (newVerificationLayer m) = m"
  "verificationMemory (newVerificationLayer m) = []"
  "successPatterns (newVerificationLayer m) = []"
  by (simp_all add: newEngine_def rated_engine_def newVerificationLayer_def)

lemma scenarioA_fields:
  "description_or_empty scenarioA_output = ''Implement secure auth with JWT''"
  "description_or_empty scenarioA_with_solutions = ''Implement secure auth with JWT''"
  "t_type scenarioA_output = Some ''implementation''"
  "t_type scenarioA_with_solutions = Some ''implementation''"
  "t_solutions scenarioA_output = None"
  "t_solutions scenarioA_with_solutions = Some two_solutions"
  "\<not> t_enhanced scenarioA_with_solutions"
  by (simp_all add: description_or_empty_def scenarioA_with_solutions_def scenarioA_output_def)

lemma scenarioA_quality:
  "verifyQualityStandards scenarioA_output = \<lparr>score = 1, passed = True\<rparr>"
  "verifyQualityStandards scenarioA_with_solutions = \<lparr>score = 1, passed = True\<rparr>"
  by (simp_all add: verifyQualityStandards_def qualityChecksOf_def validateOutputStructure_def
        scenarioA_with_solutions_def scenarioA_output_def)

lemma scenarioA_checks_common:
  assumes "description_or_empty td = ''Implement secure auth with JWT''"
    and "t_type td = Some ''implementation''"
    and "verifyQualityStandards td = \<lparr>score = 1, passed = True\<rparr>"
    and "goals ctx = Some [''Implement secure user authentication'']"
    and "verifyContextAccuracy example_env td (Some ctx) = Inr \<lparr>score = 1/8, passed = False\<rparr>"
  shows "verification_checks example_env (newVerificationLayer m) td ctx =
     \<lparr>sprintAlignment = \<lparr>score = 1/2, passed = False\<rparr>,
      qualityStandardsCheck = \<lparr>score = 1, passed = True\<rparr>,
      crossAgentConsistency = \<lparr>score = 1, passed = True\<rparr>,
      historicalCompliance = \<lparr>score = 4/5, passed = True\<rparr>,
      contextAccuracy = \<lparr>score = 1/8, passed = False\<rparr>\<rparr>"
proof -
  have sa: "verifySprintAlignment td (Some ctx) = Inr \<lparr>score = 1/2, passed = False\<rparr>"
    by (simp add: verifySprintAlignment_def assms(1) assms(4)
          scenarioA_output_keywords scenarioA_goal_keywords scenarioA_overlap)
  have cc: "verifyCrossAgentConsistency example_env (newVerificationLayer m) td
              = \<lparr>score = 1, passed = True\<rparr>"
    by (simp add: verifyCrossAgentConsistency_def new_layer)
  have hc: "verifyHistoricalCompliance (newVerificationLayer m) td
              = \<lparr>score = 4/5, passed = True\<rparr>"
    by (simp add: verifyHistoricalCompliance_def new_layer assms(2))
  show ?thesis
    by (simp add: verification_checks_def sa assms(3) cc hc assms(5))
qed

lemma verified_in_dev:
  assumes "verification_checks example_env (newVerificationLayer ''dev'') td ctx =
     \<lparr>sprintAlignment = \<lparr>score = 1/2, passed = False\<rparr>,
      qualityStandardsCheck = \<lparr>score = 1, passed = True\<rparr>,
      crossAgentConsistency = \<lparr>score = 1, passed = True\<rparr>,
      historicalCompliance = \<lparr>score = 4/5, passed = True\<rparr>,
      contextAccuracy = \<lparr>score = 1/8, passed = False\<rparr>\<rparr>"
  shows "verified (verification_result example_env (newVerificationLayer ''dev'') td ctx)"
  by (simp add: verification_result_def assms calculateVerificationScore_mean new_layer
        thresholds_values)

lemma element_accuracy_solutions:
  "calculateContextElementAccuracy example_env scenarioA_with_solutions
     (VGoals [''Implement secure user authentication'']) = 1/2"
  by (simp add: calculateContextElementAccuracy_def scenarioA_fields scenarioA_output_keywords
        scenarioA_context_keywords scenarioA_overlap)

lemma scenarioA_solutions_verified_dev:
  "verified (verification_result example_env (verificationLayer (newEngine ''dev''))
      scenarioA_with_solutions scenarioA_context)"
proof -
  have ca: "verifyContextAccuracy example_env scenarioA_with_solutions (Some scenarioA_context)
              = Inr \<lparr>score = 1/8, passed = False\<rparr>"
    by (simp add: verifyContextAccuracy_eq scenarioA_present element_accuracy_solutions)
  have g: "goals scenarioA_context = Some [''Implement secure user authentication'']"
    by (simp add: scenarioA_context_def)
  show ?thesis
    unfolding new_layer
    by (rule verified_in_dev)
       (rule scenarioA_checks_common [OF scenarioA_fields(2) scenarioA_fields(4)
           scenarioA_quality(2) g ca])
qed

lemma scenarioA_runs_critic_fixer:
  "runs_critic_fixer (newEngine ''dev'') scenarioA_with_solutions"
  by (simp add: runs_critic_fixer_def newEngine_def scenarioA_fields two_solutions_def)

lemma scenarioA_task_after:
  "task_after_critic_fixer example_env (newEngine ''dev'') scenarioA_with_solutions
     scenarioA_context
   = improved_task example_env scenarioA_with_solutions two_solutions scenarioA_context"
  by (simp add: task_after_critic_fixer_def scenarioA_runs_critic_fixer scenarioA_fields)

lemma scenarioA_no_constraints: "constraints scenarioA_context = None"
  by (simp add: scenarioA_context_def)

lemma malformed_present:
  "present_elements malformed_context =
     [VGoals [''Implement secure user authentication''],
      VConstraints \<lparr>maxComplexity = None, requiredPatterns = Some (NoList (NStr ''layered'')),
                    c_rest = []\<rparr>]"
  by (simp add: present_elements_def contextElements_def context_element_def
        malformed_context_def scenarioA_context_def map_filter_simps truthy_data_def)

lemma malformed_constraints_keywords:
  "extractKeywords (stringify example_env
     (VConstraints \<lparr>maxComplexity = None, requiredPatterns = Some (NoList (NStr ''layered'')),
                    c_rest = []\<rparr>)) = [''requiredpatternslayered'']"
  by code_simp

lemma malformed_verified_dev:
  "verified (verification_result example_env (verificationLayer (rated_engine ''dev''))
      scenarioA_output malformed_context)"
proof -
  have e1: "calculateContextElementAccuracy example_env scenarioA_output
              (VGoals [''Implement secure user authentication'']) = 1/2"
    by (rule scenarioA_element_accuracy)
  have e2: "calculateContextElementAccuracy example_env scenarioA_output
              (VConstraints \<lparr>maxComplexity = None,
                             requiredPatterns = Some (NoList (NStr ''layered'')),
                             c_rest = []\<rparr>) = 0"
    by (simp add: calculateContextElementAccuracy_def scenarioA_fields
          scenarioA_output_keywords malformed_constraints_keywords
          calculateKeywordAlignment_def)
  have ca: "verifyContextAccuracy example_env scenarioA_output (Some malformed_context)
              = Inr \<lparr>score = 1/8, passed = False\<rparr>"
    by (simp add: verifyContextAccuracy_eq malformed_present e1 e2)
  have g: "goals malformed_context = Some [''Implement secure user authentication'']"
    by (simp add: malformed_context_def scenarioA_context_def)
  show ?thesis
    unfolding new_layer
    by (rule verified_in_dev)
       (rule scenarioA_checks_common [OF scenarioA_fields(1) scenarioA_fields(3)
           scenarioA_quality(1) g ca])
qed

lemma malformed_task_after:
  "task_after_critic_fixer example_env (rated_engine ''dev'') scenarioA_output malformed_context
     = scenarioA_output"
  by (simp add: task_after_critic_fixer_def runs_critic_fixer_def scenarioA_fields)

lemma malformed_compliance:
  "calculateSprintCompliance example_env scenarioA_output malformed_context
     = Inl (TypeError ''constraints.requiredPatterns.every is not a function'')"
  by (simp add: calculateSprintCompliance_def calculateConstraintAdherence_def Let_def
        malformed_context_def)

section \<open>What the pipeline returns, and what it writes\<close>

text \<open>
  Claim C3, as amended.  For every task data object, every agent and every sprint context,
  null included, \<open>processAgentTask\<close> returns a processing result, whose final result has
  status approved, blocked or error.  When a phase throws inside the \<^verbatim>\<open>try\<close> block (the
  verification on a null sprint context, the sprint compliance on a malformed list of
  required patterns) the final result has status error and carries the message of the
  error; a status of error comes from a thrown error only; and with status error the
  rating system is as it was before the call.
\<close>

theorem pipeline_returns_for_task_objects:
  "\<exists>pr G' td' fr. processAgentTask E G a (Some td) sc = Returned pr G' td'
      \<and> pr_finalResult pr = Some fr
      \<and> (status fr = ''approved'' \<or> status fr = ''blocked'' \<or> status fr = ''error'')
      \<and> (\<forall>err. phase_error E G a td sc = Some err \<longrightarrow> fr = ErrorResult (message err))
      \<and> ((status fr = ''error'') = (phase_error E G a td sc \<noteq> None))
      \<and> (status fr = ''error'' \<longrightarrow> eloSystem G' = eloSystem G)"
proof (cases sc)
  case None
  show ?thesis
    unfolding None pipeline_null_context by (simp add: counted_frame)
next
  case (Some ctx)
  show ?thesis
  proof (cases "verified (verification_result E (verificationLayer G) td ctx)")
    case False
    from pipeline_blocked [OF False, of a] show ?thesis
      unfolding Some by fastforce
  next
    case True
    show ?thesis
    proof (cases "calculateSprintCompliance E (task_after_critic_fixer E G td ctx) ctx")
      case (Inl err)
      from pipeline_late_error [OF True Inl, of a] show ?thesis
        unfolding Some by fastforce
    next
      case (Inr c)
      from pipeline_approved [OF True Inr, of a] show ?thesis
        unfolding Some by fastforce
    qed
  qed
qed

text \<open>
  A run in which a phase throws after the verification has passed: the call returns with
  status error and the message of the error, and the ratings are untouched.
\<close>

theorem pipeline_returns_for_task_objects_witness:
  "phase_error example_env (rated_engine ''dev'') ''agent-1'' scenarioA_output
      (Some malformed_context)
     = Some (TypeError ''constraints.requiredPatterns.every is not a function'')
   \<and> (\<exists>pr G' td'.
        processAgentTask example_env (rated_engine ''dev'') ''agent-1''
          (Some scenarioA_output) (Some malformed_context) = Returned pr G' td'
        \<and> pr_finalResult pr
            = Some (ErrorResult ''constraints.requiredPatterns.every is not a function'')
        \<and> eloSystem G' = eloSystem (rated_engine ''dev''))"
proof -
  have c: "calculateSprintCompliance example_env
             (task_after_critic_fixer example_env (rated_engine ''dev'') scenarioA_output
                malformed_context) malformed_context
           = Inl (TypeError ''constraints.requiredPatterns.every is not a function'')"
    unfolding malformed_task_after by (rule malformed_compliance)
  note e = pipeline_late_error(2) [OF malformed_verified_dev c, of "''agent-1''"]
  from pipeline_returns_for_task_objects
         [of example_env "rated_engine ''dev''" "''agent-1''" scenarioA_output
             "Some malformed_context"]
  obtain pr G' td' fr where
    r: "processAgentTask example_env (rated_engine ''dev'') ''agent-1''
          (Some scenarioA_output) (Some malformed_context) = Returned pr G' td'"
    and f: "pr_finalResult pr = Some fr"
    and m: "\<forall>err. phase_error example_env (rated_engine ''dev'') ''agent-1'' scenarioA_output
               (Some malformed_context) = Some err \<longrightarrow> fr = ErrorResult (message err)"
    and u: "status fr = ''error'' \<longrightarrow> eloSystem G' = eloSystem (rated_engine ''dev'')"
    by blast
  from m e have fr: "fr = ErrorResult ''constraints.requiredPatterns.every is not a function''"
    by simp
  then have "status fr = ''error''" by simp
  with u have "eloSystem G' = eloSystem (rated_engine ''dev'')" by blast
  with e r f fr show ?thesis by blast
qed

text \<open>
  Claim C3 as stated fails: \<^verbatim>\<open>taskData.id\<close> is read before the \<^verbatim>\<open>try\<close> block, so a null task
  makes the call throw instead of returning a result.
\<close>

theorem pipeline_null_task_counterexample:
  "processAgentTask example_env (rated_engine ''moderate'') ''agent-1'' None
     (Some scenarioA_context)
   = Threw (null_read ''id'') (counted (rated_engine ''moderate''))"
  by (rule processAgentTask_null_task)

text \<open>
  Claim C8, as amended.  A call that ends blocked leaves the task data as submitted, and so
  does an approved call in which the critic-fixer phase does not run.  An approved call in
  which it runs (continuous learning enabled, at least two candidate solutions) overwrites
  \<open>solutions\<close> with the final solutions of the cycle, sets \<open>enhanced\<close> to true and
  \<open>improvementCycles\<close> to the number of cycles run, and leaves every other field.
\<close>

theorem task_data_written_by_critic_fixer_only:
  assumes "processAgentTask E G a (Some td) sc = Returned pr G' td'"
    and "pr_finalResult pr = Some fr"
  shows "(status fr = ''blocked'' \<longrightarrow> td' = td)
       \<and> (status fr = ''approved'' \<and> \<not> runs_critic_fixer G td \<longrightarrow> td' = td)
       \<and> (\<forall>sols ctx. status fr = ''approved'' \<and> runs_critic_fixer G td
              \<and> t_solutions td = Some sols \<and> sc = Some ctx
              \<longrightarrow> td' = improved_task E td sols ctx)"
  using assms by (rule processAgentTask_task)

theorem task_data_written_by_critic_fixer_only_witness:
  "runs_critic_fixer (newEngine ''dev'') scenarioA_with_solutions
   \<and> t_solutions scenarioA_with_solutions = Some two_solutions
   \<and> (\<exists>pr G' vs er pc oc en.
         processAgentTask example_env (newEngine ''dev'') ''agent-1''
           (Some scenarioA_with_solutions) (Some scenarioA_context)
         = Returned pr G'
             (improved_task example_env scenarioA_with_solutions two_solutions scenarioA_context)
         \<and> pr_finalResult pr = Some (Approved vs er pc oc en))"
proof -
  from compliance_without_constraints [OF scenarioA_no_constraints]
  obtain c where c: "calculateSprintCompliance example_env
      (task_after_critic_fixer example_env (newEngine ''dev'') scenarioA_with_solutions
         scenarioA_context) scenarioA_context = Inr c"
    by blast
  from pipeline_approved(1) [OF scenarioA_solutions_verified_dev c, of "''agent-1''"]
  obtain pr G' vs er pc oc en where
    r: "processAgentTask example_env (newEngine ''dev'') ''agent-1''
          (Some scenarioA_with_solutions) (Some scenarioA_context)
        = Returned pr G' (task_after_critic_fixer example_env (newEngine ''dev'')
                            scenarioA_with_solutions scenarioA_context)"
    and f: "pr_finalResult pr = Some (Approved vs er pc oc en)"
    by blast
  have st: "status (Approved vs er pc oc en) = ''approved''" by simp
  from task_data_written_by_critic_fixer_only [OF r f] st scenarioA_runs_critic_fixer
    scenarioA_fields(6)
  have "task_after_critic_fixer example_env (newEngine ''dev'') scenarioA_with_solutions
          scenarioA_context
        = improved_task example_env scenarioA_with_solutions two_solutions scenarioA_context"
    by blast
  with r f scenarioA_runs_critic_fixer scenarioA_fields(6) show ?thesis by metis
qed

text \<open>
  Claim C8 as stated fails: an approved task with two candidate solutions comes back with
  \<open>enhanced\<close> set, which it was not when submitted.
\<close>

theorem task_data_counterexample:
  "map_option t_enhanced
     (returned_task (processAgentTask example_env (newEngine ''dev'') ''agent-1''
        (Some scenarioA_with_solutions) (Some scenarioA_context))) = Some True
   \<and> \<not> t_enhanced scenarioA_with_solutions"
proof -
  from compliance_without_constraints [OF scenarioA_no_constraints]
  obtain c where c: "calculateSprintCompliance example_env
      (task_after_critic_fixer example_env (newEngine ''dev'') scenarioA_with_solutions
         scenarioA_context) scenarioA_context = Inr c"
    by blast
  from pipeline_approved(1) [OF scenarioA_solutions_verified_dev c, of "''agent-1''"]
  have "returned_task (processAgentTask example_env (newEngine ''dev'') ''agent-1''
        (Some scenarioA_with_solutions) (Some scenarioA_context))
      = Some (improved_task example_env scenarioA_with_solutions two_solutions scenarioA_context)"
    by (auto simp add: scenarioA_task_after)
  then show ?thesis by (simp add: improved_task_def scenarioA_fields)
qed

end
